theory Spec2Isabelle
  imports Complex_Main
begin

section \<open>JavaScript strings, values and objects\<close>

text \<open>
  A JavaScript string is a sequence of UTF-16 code units; \<open>length\<close> counts code units,
  as \<^verbatim>\<open>String.prototype.length\<close> does. String literals of the source are written
  with \<open>lit\<close>; code units beyond ASCII are given by number.
\<close>

type_synonym jsstring = "nat list"

definition lit :: "string \<Rightarrow> jsstring" where
  "lit s = map of_char s"

text \<open>The class \<^verbatim>\<open>\s\<close> of regular expressions, which is also what \<^verbatim>\<open>trim\<close> strips.\<close>

definition isWhiteSpace :: "nat \<Rightarrow> bool" where
  "isWhiteSpace c =
     (c = 9 \<or> c = 10 \<or> c = 11 \<or> c = 12 \<or> c = 13 \<or> c = 32 \<or> c = 160 \<or> c = 5760
      \<or> (8192 \<le> c \<and> c \<le> 8202) \<or> c = 8232 \<or> c = 8233 \<or> c = 8239 \<or> c = 8287
      \<or> c = 12288 \<or> c = 65279)"

text \<open>The classes \<^verbatim>\<open>\d\<close> and \<^verbatim>\<open>\w\<close> (ASCII only, no \<^verbatim>\<open>u\<close> flag in the source).\<close>

definition isDigit :: "nat \<Rightarrow> bool" where
  "isDigit c = (48 \<le> c \<and> c \<le> 57)"

definition isWordChar :: "nat \<Rightarrow> bool" where
  "isWordChar c = (isDigit c \<or> (65 \<le> c \<and> c \<le> 90) \<or> (97 \<le> c \<and> c \<le> 122) \<or> c = 95)"

text \<open>
  The case folding of Basic Latin and of the Latin-1 Supplement: a capital letter and
  its small letter. It is the folding of the \<^verbatim>\<open>i\<close> flag for the literals of the
  regular expressions of the source, whose letters are of these two blocks and have no
  other case variant.
\<close>

definition lowerUnit :: "nat \<Rightarrow> nat" where
  "lowerUnit c =
     (if (65 \<le> c \<and> c \<le> 90) \<or> (192 \<le> c \<and> c \<le> 222 \<and> c \<noteq> 215) then c + 32 else c)"

text \<open>
  The built-ins whose tables are the platform's and not code of the repository:
  \<^verbatim>\<open>String.prototype.toLowerCase\<close> and \<^verbatim>\<open>normalize('NFD')\<close>, which follow the
  Unicode character database, and the conversions of a number. They are parameters
  of the model, so that what is proved of a function holds whatever these built-ins
  are. A number is kept as the decimal numeral that \<^verbatim>\<open>parseFloat\<close> has read, which
  determines it; \<open>numberToString\<close> is \<^verbatim>\<open>String(x)\<close> and \<open>numberTruthy\<close> is
  \<^verbatim>\<open>!!x\<close> for the number \<open>x\<close> of a numeral.
\<close>

record platform =
  toLowerCase :: "jsstring \<Rightarrow> jsstring"
  normalizeNFD :: "jsstring \<Rightarrow> jsstring"
  numberToString :: "jsstring \<Rightarrow> jsstring"
  numberTruthy :: "jsstring \<Rightarrow> bool"

definition trim :: "jsstring \<Rightarrow> jsstring" where
  "trim s = rev (dropWhile isWhiteSpace (rev (dropWhile isWhiteSpace s)))"

definition startsWith :: "jsstring \<Rightarrow> jsstring \<Rightarrow> bool" where
  "startsWith s p = (take (length p) s = p)"

text \<open>\<^verbatim>\<open>s.includes(sub)\<close>: \<open>sub\<close> occurs in \<open>s\<close> as a contiguous block.\<close>

fun str_includes :: "jsstring \<Rightarrow> jsstring \<Rightarrow> bool" where
  "str_includes [] sub = (sub = [])"
| "str_includes (c # cs) sub = (startsWith (c # cs) sub \<or> str_includes cs sub)"

text \<open>\<^verbatim>\<open>s.split(sep)\<close> for a separator of one code unit.\<close>

fun split_on :: "nat \<Rightarrow> jsstring \<Rightarrow> jsstring list" where
  "split_on sep [] = [[]]"
| "split_on sep (c # cs) =
     (if c = sep then [] # split_on sep cs
      else (case split_on sep cs of
              [] \<Rightarrow> [[c]]
            | p # ps \<Rightarrow> (c # p) # ps))"

fun join_with :: "jsstring \<Rightarrow> jsstring list \<Rightarrow> jsstring" where
  "join_with sep [] = []"
| "join_with sep [p] = p"
| "join_with sep (p # q # ps) = p @ sep @ join_with sep (q # ps)"

text \<open>
  Exceptions are values. The message of a \<open>TypeError\<close> is the engine's own text.
\<close>

datatype js_error = TypeError jsstring | Error jsstring

fun error_message :: "js_error \<Rightarrow> jsstring" where
  "error_message (TypeError m) = m"
| "error_message (Error m) = m"

text \<open>
  The values stored in the flow data and in the user context: strings and numbers. A
  number is kept as the decimal numeral it was read from.
\<close>

datatype jsvalue = VStr jsstring | VNum jsstring

text \<open>Truthiness, and the text of a value in a template or a replacement.\<close>

fun truthy :: "platform \<Rightarrow> jsvalue \<Rightarrow> bool" where
  "truthy js (VStr s) = (s \<noteq> [])"
| "truthy js (VNum n) = numberTruthy js n"

fun value_text :: "platform \<Rightarrow> jsvalue \<Rightarrow> jsstring" where
  "value_text js (VStr s) = s"
| "value_text js (VNum n) = numberToString js n"

text \<open>
  A plain object (an object literal, a parsed JSON object) is a list of its own
  properties. Reading \<^verbatim>\<open>obj[key]\<close> looks at the own properties first and then at
  \<^verbatim>\<open>Object.prototype\<close>, whose members every plain object inherits: the read of a
  key such as \<^verbatim>\<open>toString\<close> or \<^verbatim>\<open>constructor\<close> is not
  \<^verbatim>\<open>undefined\<close> even when the object has no such property of its own.
\<close>

definition object_prototype_keys :: "jsstring list" where
  "object_prototype_keys = map lit
     [''constructor'', ''__defineGetter__'', ''__defineSetter__'', ''hasOwnProperty'',
      ''__lookupGetter__'', ''__lookupSetter__'', ''isPrototypeOf'',
      ''propertyIsEnumerable'', ''toString'', ''valueOf'', ''__proto__'',
      ''toLocaleString'']"

datatype 'a lookup = Own 'a | Inherited | Absent

definition js_get :: "(jsstring \<times> 'a) list \<Rightarrow> jsstring \<Rightarrow> 'a lookup" where
  "js_get obj k =
     (case map_of obj k of
        Some v \<Rightarrow> Own v
      | None \<Rightarrow> if k \<in> set object_prototype_keys then Inherited else Absent)"

text \<open>
  \<^verbatim>\<open>obj[key] = v\<close>. Assigning a string or a number to \<^verbatim>\<open>__proto__\<close> goes to
  the inherited setter, which ignores a value that is not an object.
\<close>

definition js_set :: "(jsstring \<times> 'a) list \<Rightarrow> jsstring \<Rightarrow> 'a \<Rightarrow> (jsstring \<times> 'a) list" where
  "js_set obj k v =
     (if k = lit ''__proto__'' \<and> map_of obj k = None then obj
      else if map_of obj k = None then obj @ [(k, v)]
      else map (\<lambda>(k', v'). if k' = k then (k', v) else (k', v')) obj)"

text \<open>
  What \<^verbatim>\<open>String(obj[key])\<close> is for an inherited member: the source text of a
  built-in function, or of \<^verbatim>\<open>Object.prototype\<close> itself for \<^verbatim>\<open>__proto__\<close>.
\<close>

definition inherited_text :: "jsstring \<Rightarrow> jsstring" where
  "inherited_text k =
     (if k = lit ''__proto__'' then lit ''[object Object]''
      else lit ''function '' @ (if k = lit ''constructor'' then lit ''Object'' else k)
           @ lit ''() { [native code] }'')"

text \<open>The key a missing (\<^verbatim>\<open>undefined\<close>) property name is converted to.\<close>

definition key_of :: "jsstring option \<Rightarrow> jsstring" where
  "key_of k = (case k of None \<Rightarrow> lit ''undefined'' | Some s \<Rightarrow> s)"

section \<open>Regular expressions\<close>

text \<open>
  The regular expressions of the source that are regular are matched by derivatives.
  \<open>Cls p\<close> is one code unit of the class \<open>p\<close>.
\<close>

datatype rx = Nul | Eps | Cls "nat \<Rightarrow> bool" | Alt rx rx | Cat rx rx | Star rx

fun nullable :: "rx \<Rightarrow> bool" where
  "nullable Nul = False"
| "nullable Eps = True"
| "nullable (Cls p) = False"
| "nullable (Alt r s) = (nullable r \<or> nullable s)"
| "nullable (Cat r s) = (nullable r \<and> nullable s)"
| "nullable (Star r) = True"

fun deriv :: "nat \<Rightarrow> rx \<Rightarrow> rx" where
  "deriv c Nul = Nul"
| "deriv c Eps = Nul"
| "deriv c (Cls p) = (if p c then Eps else Nul)"
| "deriv c (Alt r s) = Alt (deriv c r) (deriv c s)"
| "deriv c (Cat r s) =
     (if nullable r then Alt (Cat (deriv c r) s) (deriv c s) else Cat (deriv c r) s)"
| "deriv c (Star r) = Cat (deriv c r) (Star r)"

fun rx_full :: "rx \<Rightarrow> jsstring \<Rightarrow> bool" where
  "rx_full r [] = nullable r"
| "rx_full r (c # cs) = rx_full (deriv c r) cs"

definition any_unit :: rx where
  "any_unit = Cls (\<lambda>c. True)"

definition rx_plus :: "rx \<Rightarrow> rx" where
  "rx_plus r = Cat r (Star r)"

fun rx_alts :: "rx list \<Rightarrow> rx" where
  "rx_alts [] = Nul"
| "rx_alts (r # rs) = Alt r (rx_alts rs)"

text \<open>A literal, and a literal under the \<^verbatim>\<open>i\<close> flag.\<close>

fun rx_lit :: "jsstring \<Rightarrow> rx" where
  "rx_lit [] = Eps"
| "rx_lit (c # cs) = Cat (Cls (\<lambda>d. d = c)) (rx_lit cs)"

fun rx_ilit :: "jsstring \<Rightarrow> rx" where
  "rx_ilit [] = Eps"
| "rx_ilit (c # cs) = Cat (Cls (\<lambda>d. lowerUnit d = lowerUnit c)) (rx_ilit cs)"

text \<open>
  \<^verbatim>\<open>/^r$/.test(s)\<close>, \<^verbatim>\<open>/^r/.test(s)\<close>, \<^verbatim>\<open>/r$/.test(s)\<close> and
  \<^verbatim>\<open>/r/.test(s)\<close>.
\<close>

definition test_whole :: "rx \<Rightarrow> jsstring \<Rightarrow> bool" where
  "test_whole r s = rx_full r s"

definition test_start :: "rx \<Rightarrow> jsstring \<Rightarrow> bool" where
  "test_start r s = rx_full (Cat r (Star any_unit)) s"

definition test_end :: "rx \<Rightarrow> jsstring \<Rightarrow> bool" where
  "test_end r s = rx_full (Cat (Star any_unit) r) s"

definition test_any :: "rx \<Rightarrow> jsstring \<Rightarrow> bool" where
  "test_any r s = rx_full (Cat (Star any_unit) (Cat r (Star any_unit))) s"

section \<open>The validators of the flow engine\<close>

text \<open>
  A validator returns \<^verbatim>\<open>{ valid: true, value }\<close> or \<^verbatim>\<open>{ valid: false, error }\<close>.
  \<open>VForeign\<close> is a return value that is no such object, so that its \<^verbatim>\<open>valid\<close> and
  \<^verbatim>\<open>error\<close> read \<^verbatim>\<open>undefined\<close>.
\<close>

datatype validation = VOk jsvalue | VFail jsstring | VForeign


text \<open>\<^verbatim>\<open>value.replace(/\D/g, '')\<close>\<close>

definition digits_only :: "jsstring \<Rightarrow> jsstring" where
  "digits_only s = filter isDigit s"

text \<open>\<^verbatim>\<open>parseInt\<close> of one character; \<open>None\<close> is \<^verbatim>\<open>NaN\<close>.\<close>

definition parseInt_unit :: "nat \<Rightarrow> nat option" where
  "parseInt_unit c = (if isDigit c then Some (c - 48) else None)"

text \<open>
  The numeric value of a one-character string in a product (\<^verbatim>\<open>charAt(k) * pos\<close>):
  white space converts to 0.
\<close>

definition number_unit :: "nat \<Rightarrow> nat option" where
  "number_unit c = (if isDigit c then Some (c - 48) else if isWhiteSpace c then Some 0 else None)"

text \<open>\<^verbatim>\<open>/^(\d)\1{n}$/.test(s)\<close>: one digit, repeated \<open>n\<close> more times.\<close>

definition same_digit :: "nat \<Rightarrow> jsstring \<Rightarrow> bool" where
  "same_digit n s =
     (case s of [] \<Rightarrow> False
      | c # cs \<Rightarrow> isDigit c \<and> length cs = n \<and> list_all (\<lambda>d. d = c) cs)"

text \<open>
  The loop \<^verbatim>\<open>for (i = 0; i < n; i++) sum += parseInt(cpf.charAt(i)) * (w - i)\<close>,
  from index \<open>i\<close> on.
\<close>

fun cpf_sum :: "jsstring \<Rightarrow> nat \<Rightarrow> nat \<Rightarrow> nat \<Rightarrow> nat option" where
  "cpf_sum cpf w i 0 = Some 0"
| "cpf_sum cpf w i (Suc n) =
     (if i < length cpf then
        (case (parseInt_unit (cpf ! i), cpf_sum cpf w (Suc i) n) of
           (Some d, Some s) \<Rightarrow> Some (d * (w - i) + s)
         | _ \<Rightarrow> None)
      else None)"

definition cpf_check :: "nat option \<Rightarrow> nat option" where
  "cpf_check acc =
     (case acc of None \<Rightarrow> None
      | Some s \<Rightarrow> let digit = 11 - (s mod 11) in Some (if digit \<ge> 10 then 0 else digit))"

definition char_digit_at :: "jsstring \<Rightarrow> nat \<Rightarrow> nat option" where
  "char_digit_at s i = (if i < length s then parseInt_unit (s ! i) else None)"

text \<open>\<^verbatim>\<open>a !== b\<close> on numbers: \<^verbatim>\<open>NaN\<close> differs from everything.\<close>

definition num_differs :: "nat option \<Rightarrow> nat option \<Rightarrow> bool" where
  "num_differs a b = (case (a, b) of (Some x, Some y) \<Rightarrow> x \<noteq> y | _ \<Rightarrow> True)"

definition validateCPF :: "jsstring \<Rightarrow> bool" where
  "validateCPF cpf =
     (if length cpf \<noteq> 11 \<or> same_digit 10 cpf then False
      else if num_differs (cpf_check (cpf_sum cpf 10 0 9)) (char_digit_at cpf 9) then False
      else if num_differs (cpf_check (cpf_sum cpf 11 0 10)) (char_digit_at cpf 10) then False
      else True)"

text \<open>
  The loop \<^verbatim>\<open>for (i = length; i >= 1; i--) { sum += numbers.charAt(length - i) * pos--;
  if (pos < 2) pos = 9; }\<close> over the characters of \<open>numbers\<close>.
\<close>

fun cnpj_sum :: "jsstring \<Rightarrow> nat \<Rightarrow> nat option" where
  "cnpj_sum [] pos = Some 0"
| "cnpj_sum (c # cs) pos =
     (case (number_unit c, cnpj_sum cs (if pos - 1 < 2 then 9 else pos - 1)) of
        (Some d, Some s) \<Rightarrow> Some (d * pos + s)
      | _ \<Rightarrow> None)"

definition cnpj_check :: "nat option \<Rightarrow> nat option" where
  "cnpj_check acc =
     (case acc of None \<Rightarrow> None
      | Some s \<Rightarrow> Some (if s mod 11 < 2 then 0 else 11 - s mod 11))"

definition validateCNPJ :: "jsstring \<Rightarrow> bool" where
  "validateCNPJ cnpj =
     (if length cnpj \<noteq> 14 \<or> same_digit 13 cnpj then False
      else if num_differs (cnpj_check (cnpj_sum (take 12 cnpj) 5)) (char_digit_at cnpj 12)
        then False
      else if num_differs (cnpj_check (cnpj_sum (take 13 cnpj) 6)) (char_digit_at cnpj 13)
        then False
      else True)"

text \<open>
  \<^verbatim>\<open>parseFloat\<close>: the longest prefix, after leading white space, that is a decimal
  literal; \<open>None\<close> is \<^verbatim>\<open>NaN\<close>. The number is kept as the text that was read.
\<close>

definition exponent_part :: "jsstring \<Rightarrow> jsstring" where
  "exponent_part r =
     (case r of
        [] \<Rightarrow> []
      | e # r1 \<Rightarrow>
          if e = 101 \<or> e = 69 then
            (let sign = (case r1 of [] \<Rightarrow> [] | c # _ \<Rightarrow> if c = 43 \<or> c = 45 then [c] else []);
                 ds = takeWhile isDigit (drop (length sign) r1)
             in if ds = [] then [] else e # sign @ ds)
          else [])"

definition parseFloat :: "jsstring \<Rightarrow> jsstring option" where
  "parseFloat text =
     (let s = dropWhile isWhiteSpace text;
          sign = (case s of [] \<Rightarrow> [] | c # _ \<Rightarrow> if c = 43 \<or> c = 45 then [c] else []);
          r = drop (length sign) s
      in if startsWith r (lit ''Infinity'') then Some (sign @ lit ''Infinity'')
         else
           (let ip = takeWhile isDigit r;
                r1 = dropWhile isDigit r;
                dot = (r1 \<noteq> [] \<and> hd r1 = 46);
                fp = (if dot then takeWhile isDigit (tl r1) else []);
                r2 = (if dot then dropWhile isDigit (tl r1) else r1)
            in if ip = [] \<and> fp = [] then None
               else Some (sign @ ip @ (if dot then 46 # fp else []) @ exponent_part r2)))"

definition msg_text_invalid :: jsstring where
  "msg_text_invalid = lit ''Por favor, digite um texto v'' @ [225] @ lit ''lido.''"

definition msg_email_invalid :: jsstring where
  "msg_email_invalid = lit ''E-mail inv'' @ [225] @ lit ''lido. Exemplo: seu@email.com''"

definition msg_phone_invalid :: jsstring where
  "msg_phone_invalid =
     lit ''Telefone inv'' @ [225] @ lit ''lido. Digite DDD + n'' @ [250] @ lit ''mero.''"

definition msg_cpf_invalid :: jsstring where
  "msg_cpf_invalid = lit ''CPF inv'' @ [225] @ lit ''lido.''"

definition msg_cnpj_invalid :: jsstring where
  "msg_cnpj_invalid = lit ''CNPJ inv'' @ [225] @ lit ''lido.''"

definition msg_cpf_cnpj_invalid :: jsstring where
  "msg_cpf_cnpj_invalid = lit ''CPF/CNPJ inv'' @ [225] @ lit ''lido.''"

definition msg_number_invalid :: jsstring where
  "msg_number_invalid = lit ''Digite apenas n'' @ [250] @ lit ''meros.''"

definition validator_text :: "jsstring \<Rightarrow> validation" where
  "validator_text v =
     (if v = [] \<or> length (trim v) < 2 then VFail msg_text_invalid
      else VOk (VStr (trim v)))"

text \<open>\<^verbatim>\<open>/^[^\s@]+@[^\s@]+\.[^\s@]+$/\<close>\<close>

definition emailRegex :: rx where
  "emailRegex =
     (let part = rx_plus (Cls (\<lambda>c. \<not> isWhiteSpace c \<and> c \<noteq> 64))
      in Cat part (Cat (rx_lit (lit ''@'')) (Cat part (Cat (rx_lit (lit ''.'')) part))))"

definition validator_email :: "platform \<Rightarrow> jsstring \<Rightarrow> validation" where
  "validator_email js v =
     (if \<not> test_whole emailRegex v then VFail msg_email_invalid
      else VOk (VStr (trim (toLowerCase js v))))"

text \<open>\<^verbatim>\<open>/^[\d\s\(\)\-\+]{10,15}$/\<close>: ten to fifteen characters of the class.\<close>

definition phoneRegex :: "jsstring \<Rightarrow> bool" where
  "phoneRegex s =
     (10 \<le> length s \<and> length s \<le> 15
      \<and> list_all (\<lambda>c. isDigit c \<or> isWhiteSpace c \<or> c = 40 \<or> c = 41 \<or> c = 45 \<or> c = 43) s)"

definition validator_phone :: "jsstring \<Rightarrow> validation" where
  "validator_phone v =
     (let cleaned = digits_only v
      in if \<not> phoneRegex v \<or> length cleaned < 10 then VFail msg_phone_invalid
         else VOk (VStr cleaned))"

definition validator_cpf :: "jsstring \<Rightarrow> validation" where
  "validator_cpf v =
     (let cpf = digits_only v
      in if length cpf \<noteq> 11 \<or> \<not> validateCPF cpf then VFail msg_cpf_invalid
         else VOk (VStr cpf))"

definition validator_cnpj :: "jsstring \<Rightarrow> validation" where
  "validator_cnpj v =
     (let cnpj = digits_only v
      in if length cnpj \<noteq> 14 \<or> \<not> validateCNPJ cnpj then VFail msg_cnpj_invalid
         else VOk (VStr cnpj))"

definition validator_cpf_cnpj :: "jsstring \<Rightarrow> validation" where
  "validator_cpf_cnpj v =
     (let doc = digits_only v
      in if length doc = 11 then validator_cpf v
         else if length doc = 14 then validator_cnpj v
         else VFail msg_cpf_cnpj_invalid)"

definition validator_number :: "jsstring \<Rightarrow> validation" where
  "validator_number v =
     (case parseFloat v of
        None \<Rightarrow> VFail msg_number_invalid
      | Some num \<Rightarrow> VOk (VNum num))"

definition validator_option :: "jsstring \<Rightarrow> validation" where
  "validator_option v = VOk (VStr (trim v))"

text \<open>The object literal that \<^verbatim>\<open>setupValidators\<close> returns.\<close>

definition setupValidators :: "platform \<Rightarrow> (jsstring \<times> (jsstring \<Rightarrow> validation)) list" where
  "setupValidators js =
     [(lit ''text'', validator_text),
      (lit ''email'', validator_email js),
      (lit ''phone'', validator_phone),
      (lit ''cpf'', validator_cpf),
      (lit ''cnpj'', validator_cnpj),
      (lit ''cpf_cnpj'', validator_cpf_cnpj),
      (lit ''number'', validator_number),
      (lit ''option'', validator_option)]"

text \<open>
  What calling an inherited member of \<^verbatim>\<open>Object.prototype\<close> as
  \<^verbatim>\<open>validator(value)\<close> does, with a string argument and no receiver (class bodies
  are strict code): \<^verbatim>\<open>Object\<close> wraps the string, \<^verbatim>\<open>toString\<close> returns
  \<^verbatim>\<open>"[object Undefined]"\<close>, \<^verbatim>\<open>isPrototypeOf\<close> returns \<^verbatim>\<open>false\<close>;
  \<^verbatim>\<open>__proto__\<close> reads an object that is not callable; the other members need a
  receiver and throw.
\<close>

definition call_inherited :: "jsstring \<Rightarrow> js_error + validation" where
  "call_inherited k =
     (if k = lit ''constructor'' \<or> k = lit ''toString'' \<or> k = lit ''isPrototypeOf''
        then Inr VForeign
      else if k = lit ''__proto__'' then Inl (TypeError (lit ''validator is not a function''))
      else Inl (TypeError (lit ''Cannot convert undefined or null to object'')))"

definition validateInput :: "platform \<Rightarrow> jsstring \<Rightarrow> jsstring option \<Rightarrow> js_error + validation" where
  "validateInput js v validationType =
     (case js_get (setupValidators js) (key_of validationType) of
        Absent \<Rightarrow> Inr (VOk (VStr v))
      | Own validator \<Rightarrow> Inr (validator v)
      | Inherited \<Rightarrow> call_inherited (key_of validationType))"

section \<open>The flow engine: configuration and state\<close>

text \<open>
  A step of a flow definition is a JSON object: \<open>s_type\<close> is its \<^verbatim>\<open>type\<close>, an
  arbitrary string, and a field that the object does not have reads \<^verbatim>\<open>undefined\<close>
  (\<open>None\<close>).
\<close>

record step_option =
  opt_id :: jsstring
  opt_label :: jsstring
  opt_action :: "jsstring option"
  opt_target :: "jsstring option"
  opt_next :: "jsstring option"

record step =
  s_id :: jsstring
  s_type :: jsstring
  s_message :: "jsstring option"
  s_next :: "jsstring option"
  s_delay :: "nat option"
  s_options :: "step_option list option"
  s_max_retries :: "nat option"
  s_retry_message :: "jsstring option"
  s_field :: "jsstring option"
  s_validation :: "jsstring option"
  s_save_to :: "jsstring option"
  s_fallback :: "jsstring option"
  s_confidence_threshold :: "real option"
  s_action :: "jsstring option"
  s_department_id :: "jsstring option"
  s_context_message :: "jsstring option"
  s_notify_human :: bool
  s_priority :: "jsstring option"
  s_success_message :: "jsstring option"
  s_condition :: "jsstring option"
  s_if_true :: "jsstring option"
  s_if_false :: "jsstring option"

record flow =
  steps :: "step list"

record department =
  dept_id :: jsstring
  dept_transfer_message :: "jsstring option"

record fallback_config =
  transfer_after_limit :: bool
  transfer_message :: "jsstring option"

record config =
  mode :: jsstring
  atendimento_flowId :: "jsstring option"
  triagem_flowId :: "jsstring option"
  flows :: "(jsstring \<times> flow) list"
  departments :: "department list"
  fallback :: "fallback_config option"
  ai_enabled :: "bool option"

type_synonym user_context = "(jsstring \<times> jsvalue) list"

record history_entry =
  h_stepId :: jsstring
  h_type :: jsstring
  h_input :: jsstring
  h_timestamp :: nat

record userState =
  phone :: jsstring
  currentFlow :: "jsstring option"
  currentStep :: nat
  stepId :: jsstring
  data :: "(jsstring \<times> jsvalue) list"
  us_context :: user_context
  retryCount :: nat
  history :: "history_entry list"
  startedAt :: nat
  waitingInput :: bool
  expectedInput :: "jsstring option"
  menuOptions :: "step_option list option"
  validationType :: "jsstring option"
  quickReplyOptions :: "step_option list option"
  previousFlow :: "jsstring option"

text \<open>
  The engine: the map \<^verbatim>\<open>userStates\<close>, and the calls of
  \<^verbatim>\<open>database.saveUserContext\<close> made so far.
\<close>

record engine =
  userStates :: "jsstring \<Rightarrow> userState option"
  savedContexts :: "(jsstring \<times> user_context) list"

text \<open>The result object of a step; a field that is not set is \<open>None\<close> or \<open>False\<close>.\<close>

record flow_result =
  r_message :: "jsstring option"
  r_action :: "jsstring option"
  r_error :: bool
  r_waitingInput :: bool
  r_continue :: bool
  r_restart :: bool
  r_transferComplete :: bool
  r_delay :: "nat option"
  r_departmentId :: "jsstring option"
  r_priority :: "jsstring option"
  r_flowChanged :: bool
  r_confidence :: "real option"
  r_fromAI :: bool

definition no_result :: flow_result where
  "no_result =
     \<lparr>r_message = None, r_action = None, r_error = False, r_waitingInput = False,
      r_continue = False, r_restart = False, r_transferComplete = False, r_delay = None,
      r_departmentId = None, r_priority = None, r_flowChanged = False,
      r_confidence = None, r_fromAI = False\<rparr>"

type_synonym outcome = "(js_error + flow_result) \<times> engine \<times> user_context"

text \<open>\<^verbatim>\<open>!!s\<close> for an optional string.\<close>

definition present :: "jsstring option \<Rightarrow> bool" where
  "present s = (case s of None \<Rightarrow> False | Some t \<Rightarrow> t \<noteq> [])"

text \<open>\<^verbatim>\<open>s || d\<close> for an optional string.\<close>

definition or_else :: "jsstring option \<Rightarrow> jsstring \<Rightarrow> jsstring" where
  "or_else s d = (case s of None \<Rightarrow> d | Some t \<Rightarrow> if t = [] then d else t)"

text \<open>The text of an optional string inside a template literal.\<close>

definition template_text :: "jsstring option \<Rightarrow> jsstring" where
  "template_text s = (case s of None \<Rightarrow> lit ''undefined'' | Some t \<Rightarrow> t)"

definition cannot_read :: "string \<Rightarrow> js_error" where
  "cannot_read p =
     TypeError (lit ''Cannot read properties of undefined (reading '' @ [39] @ lit p
                @ [39] @ lit '')'')"

definition getUserState :: "engine \<Rightarrow> jsstring \<Rightarrow> userState option" where
  "getUserState e ph = userStates e ph"

text \<open>
  The state object of a user is shared with the map: an assignment to a field of
  \<^verbatim>\<open>userState\<close> is at once a change of the entry of the map. \<open>put_state\<close> writes
  the changed object.
\<close>

definition put_state :: "engine \<Rightarrow> jsstring \<Rightarrow> userState \<Rightarrow> engine" where
  "put_state e ph us = e\<lparr>userStates := (userStates e)(ph \<mapsto> us)\<rparr>"

definition resetUserFlow :: "engine \<Rightarrow> jsstring \<Rightarrow> engine" where
  "resetUserFlow e ph = e\<lparr>userStates := (userStates e)(ph := None)\<rparr>"

definition saveUserContext :: "engine \<Rightarrow> jsstring \<Rightarrow> user_context \<Rightarrow> engine" where
  "saveUserContext e ph c = e\<lparr>savedContexts := savedContexts e @ [(ph, c)]\<rparr>"

definition initializeUserFlow ::
  "config \<Rightarrow> nat \<Rightarrow> engine \<Rightarrow> jsstring \<Rightarrow> jsstring option \<Rightarrow> user_context
   \<Rightarrow> (js_error + userState option) \<times> engine" where
  "initializeUserFlow cfg now e ph flowId uctx =
     (case js_get (flows cfg) (key_of flowId) of
        Absent \<Rightarrow> (Inr None, e)
      | Inherited \<Rightarrow> (Inl (cannot_read ''0''), e)
      | Own fl \<Rightarrow>
          (case steps fl of
             [] \<Rightarrow> (Inl (cannot_read ''id''), e)
           | st # _ \<Rightarrow>
               (let us = \<lparr>phone = ph, currentFlow = flowId, currentStep = 0,
                          stepId = s_id st, data = [], us_context = uctx, retryCount = 0,
                          history = [], startedAt = now, waitingInput = False,
                          expectedInput = None, menuOptions = None, validationType = None,
                          quickReplyOptions = None, previousFlow = None\<rparr>
                in (Inr (Some us), put_state e ph us))))"

text \<open>\<^verbatim>\<open>flow.steps.findIndex(s => s.id === nextStepId)\<close>; \<open>None\<close> is \<open>-1\<close>.\<close>

fun findIndex :: "('a \<Rightarrow> bool) \<Rightarrow> 'a list \<Rightarrow> nat option" where
  "findIndex p [] = None"
| "findIndex p (x # xs) =
     (if p x then Some 0 else (case findIndex p xs of None \<Rightarrow> None | Some i \<Rightarrow> Some (Suc i)))"

definition moveToNextStep :: "config \<Rightarrow> userState \<Rightarrow> jsstring \<Rightarrow> js_error + userState" where
  "moveToNextStep cfg us nextStepId =
     (case js_get (flows cfg) (key_of (currentFlow us)) of
        Absent \<Rightarrow> Inl (cannot_read ''steps'')
      | Inherited \<Rightarrow> Inl (cannot_read ''findIndex'')
      | Own fl \<Rightarrow>
          (case findIndex (\<lambda>s. s_id s = nextStepId) (steps fl) of
             None \<Rightarrow> Inr us
           | Some nextIndex \<Rightarrow> Inr (us\<lparr>currentStep := nextIndex, stepId := nextStepId\<rparr>)))"

text \<open>A handler's \<^verbatim>\<open>if (target) this.moveToNextStep(phone, userState, target)\<close>.\<close>

definition move_if ::
  "config \<Rightarrow> userState \<Rightarrow> jsstring option \<Rightarrow> js_error + userState" where
  "move_if cfg us target =
     (case target of
        None \<Rightarrow> Inr us
      | Some t \<Rightarrow> if t = [] then Inr us else moveToNextStep cfg us t)"

section \<open>The flow engine: variables and conditions\<close>

text \<open>
  The callback of \<^verbatim>\<open>replaceVariables\<close>: the user context first, then the data of
  the flow, else the token itself.
\<close>

definition variable_in :: "platform \<Rightarrow> (jsstring \<times> jsvalue) list \<Rightarrow> jsstring \<Rightarrow> jsstring option" where
  "variable_in js obj key =
     (case js_get obj key of
        Own v \<Rightarrow> if truthy js v then Some (value_text js v) else None
      | Inherited \<Rightarrow> Some (inherited_text key)
      | Absent \<Rightarrow> None)"

definition lookup_variable :: "platform \<Rightarrow> userState \<Rightarrow> user_context \<Rightarrow> jsstring \<Rightarrow> jsstring" where
  "lookup_variable js us uctx key =
     (case variable_in js uctx key of
        Some t \<Rightarrow> t
      | None \<Rightarrow>
          (case variable_in js (data us) key of
             Some t \<Rightarrow> t
           | None \<Rightarrow> [123] @ key @ [125]))"

text \<open>\<^verbatim>\<open>text.replace(/\{(\w+)\}/g, f)\<close>\<close>

function replace_tokens :: "(jsstring \<Rightarrow> jsstring) \<Rightarrow> jsstring \<Rightarrow> jsstring" where
  "replace_tokens f [] = []"
| "replace_tokens f (c # cs) =
     (if c = 123 \<and> takeWhile isWordChar cs \<noteq> [] \<and> dropWhile isWordChar cs \<noteq> []
         \<and> hd (dropWhile isWordChar cs) = 125
      then f (takeWhile isWordChar cs) @ replace_tokens f (tl (dropWhile isWordChar cs))
      else c # replace_tokens f cs)"
  by pat_completeness auto
termination
proof (relation "measure (\<lambda>(f, s). length s)")
  show "wf (measure (\<lambda>(f, s). length s))" by simp
next
  fix f :: "jsstring \<Rightarrow> jsstring" and c :: nat and cs :: jsstring
  have "length (tl (dropWhile isWordChar cs)) \<le> length cs"
    using length_dropWhile_le [of isWordChar cs] by simp
  then show "((f, tl (dropWhile isWordChar cs)), (f, c # cs)) \<in> measure (\<lambda>(f, s). length s)"
    by simp
next
  fix f :: "jsstring \<Rightarrow> jsstring" and c :: nat and cs :: jsstring
  show "((f, cs), (f, c # cs)) \<in> measure (\<lambda>(f, s). length s)" by simp
qed

definition replaceVariables ::
  "platform \<Rightarrow> jsstring option \<Rightarrow> userState \<Rightarrow> user_context \<Rightarrow> js_error + jsstring" where
  "replaceVariables js text us uctx =
     (case text of
        None \<Rightarrow> Inl (cannot_read ''replace'')
      | Some t \<Rightarrow> Inr (replace_tokens (lookup_variable js us uctx) t))"

definition buildMenuMessage ::
  "platform \<Rightarrow> step \<Rightarrow> userState \<Rightarrow> user_context \<Rightarrow> js_error + jsstring" where
  "buildMenuMessage js st us uctx = replaceVariables js (s_message st) us uctx"

definition getDepartmentTransferMessage :: "config \<Rightarrow> jsstring option \<Rightarrow> jsstring option" where
  "getDepartmentTransferMessage cfg deptId =
     (case find (\<lambda>d. Some (dept_id d) = deptId) (departments cfg) of
        Some dept \<Rightarrow> dept_transfer_message dept
      | None \<Rightarrow> Some (lit ''Transferindo...''))"

definition nth_opt :: "'a list \<Rightarrow> nat \<Rightarrow> 'a option" where
  "nth_opt xs i = (if i < length xs then Some (xs ! i) else None)"

text \<open>
  \<^verbatim>\<open>evaluateCondition\<close>. Its \<^verbatim>\<open>try\<close> turns every exception into
  \<^verbatim>\<open>false\<close>: a condition that is missing, or \<^verbatim>\<open>contains\<close> on a target that
  is not a string. The result is used for its truthiness only.
\<close>

definition evaluateCondition :: "platform \<Rightarrow> jsstring option \<Rightarrow> userState \<Rightarrow> user_context \<Rightarrow> bool" where
  "evaluateCondition js cond us uctx =
     (case cond of
        None \<Rightarrow> False
      | Some c \<Rightarrow>
          (let parts = split_on 32 c;
               path = split_on 46 (hd parts);
               operator = nth_opt parts 1;
               v = join_with [32] (drop 2 parts);
               target =
                 (if hd path = lit ''user_context'' then js_get uctx (key_of (nth_opt path 1))
                  else if hd path = lit ''data''
                    then js_get (data us) (key_of (nth_opt path 1))
                  else Absent)
           in if operator = Some (lit ''exists'') then
                (case target of Own t \<Rightarrow> truthy js t | Inherited \<Rightarrow> True | Absent \<Rightarrow> False)
              else if operator = Some (lit ''equals'') then
                (case target of Own (VStr t) \<Rightarrow> t = v | _ \<Rightarrow> False)
              else if operator = Some (lit ''contains'') then
                (case target of Own (VStr t) \<Rightarrow> t \<noteq> [] \<and> str_includes t v | _ \<Rightarrow> False)
              else False))"

section \<open>The flow engine: the step handlers\<close>

definition msg_restart :: jsstring where
  "msg_restart = lit ''Vamos recome'' @ [231] @ lit ''ar do in'' @ [237] @ lit ''cio.''"

definition handleMaxRetriesExceeded :: "config \<Rightarrow> engine \<Rightarrow> jsstring \<Rightarrow> user_context \<Rightarrow> outcome" where
  "handleMaxRetriesExceeded cfg e ph uctx =
     (case fallback cfg of
        None \<Rightarrow> (Inl (cannot_read ''transfer_after_limit''), e, uctx)
      | Some fb \<Rightarrow>
          if transfer_after_limit fb then
            (Inr (no_result\<lparr>r_message := transfer_message fb,
                             r_action := Some (lit ''transfer_human''),
                             r_transferComplete := True\<rparr>), e, uctx)
          else
            (Inr (no_result\<lparr>r_message := Some msg_restart, r_restart := True\<rparr>),
             resetUserFlow e ph, uctx))"

definition handleMessageStep ::
  "platform \<Rightarrow> config \<Rightarrow> engine \<Rightarrow> jsstring \<Rightarrow> step \<Rightarrow> userState \<Rightarrow> user_context \<Rightarrow> outcome" where
  "handleMessageStep js cfg e ph st us uctx =
     (case replaceVariables js (s_message st) us uctx of
        Inl err \<Rightarrow> (Inl err, e, uctx)
      | Inr m \<Rightarrow>
          (case move_if cfg us (s_next st) of
             Inl err \<Rightarrow> (Inl err, e, uctx)
           | Inr us' \<Rightarrow>
               (Inr (no_result\<lparr>r_message := Some m,
                                r_delay := Some (case s_delay st of None \<Rightarrow> 0 | Some d \<Rightarrow> d),
                                r_continue := present (s_next st)\<rparr>),
                put_state e ph us', uctx)))"

definition gotoFlow ::
  "config \<Rightarrow> nat \<Rightarrow> engine \<Rightarrow> jsstring \<Rightarrow> jsstring option \<Rightarrow> userState \<Rightarrow> user_context
   \<Rightarrow> outcome" where
  "gotoFlow cfg now e ph flowId us uctx =
     (case js_get (flows cfg) (key_of flowId) of
        Absent \<Rightarrow>
          (Inr (no_result\<lparr>r_message := Some (lit ''Erro ao trocar fluxo.''), r_error := True\<rparr>),
           e, uctx)
      | _ \<Rightarrow>
          (let e1 = resetUserFlow (put_state e ph (us\<lparr>previousFlow := currentFlow us\<rparr>)) ph
           in case initializeUserFlow cfg now e1 ph flowId uctx of
                (Inl err, e2) \<Rightarrow> (Inl err, e2, uctx)
              | (Inr _, e2) \<Rightarrow>
                  (Inr (no_result\<lparr>r_message := Some ([55357, 56580] @ lit '' Redirecionando...''),
                                   r_flowChanged := True, r_continue := True\<rparr>),
                   e2, uctx)))"

text \<open>\<^verbatim>\<open>step.max_retries || 3\<close>\<close>

definition max_retries_of :: "step \<Rightarrow> nat" where
  "max_retries_of st = (case s_max_retries st of None \<Rightarrow> 3 | Some n \<Rightarrow> if n = 0 then 3 else n)"

definition msg_invalid_option :: jsstring where
  "msg_invalid_option =
     lit ''Op'' @ [231, 227] @ lit ''o inv'' @ [225] @ lit ''lida. Tente novamente.''"

definition handleMenuStep ::
  "platform \<Rightarrow> config \<Rightarrow> nat \<Rightarrow> engine \<Rightarrow> jsstring \<Rightarrow> jsstring \<Rightarrow> step \<Rightarrow> userState \<Rightarrow> user_context
   \<Rightarrow> outcome" where
  "handleMenuStep js cfg now e ph message st us uctx =
     (if \<not> waitingInput us then
        (case buildMenuMessage js st us uctx of
           Inl err \<Rightarrow> (Inl err, e, uctx)
         | Inr menuMessage \<Rightarrow>
             (Inr (no_result\<lparr>r_message := Some menuMessage, r_waitingInput := True\<rparr>),
              put_state e ph (us\<lparr>waitingInput := True,
                                 expectedInput := Some (lit ''menu_option''),
                                 menuOptions := s_options st\<rparr>),
              uctx))
      else
        (case s_options st of
           None \<Rightarrow> (Inl (cannot_read ''find''), e, uctx)
         | Some opts \<Rightarrow>
             (case find (\<lambda>opt. opt_id opt = trim message) opts of
                None \<Rightarrow>
                  (let us1 = us\<lparr>retryCount := retryCount us + 1\<rparr>;
                       e1 = put_state e ph us1
                   in if retryCount us1 \<ge> max_retries_of st
                      then handleMaxRetriesExceeded cfg e1 ph uctx
                      else (Inr (no_result\<lparr>r_message :=
                                             Some (or_else (s_retry_message st) msg_invalid_option),
                                           r_waitingInput := True\<rparr>),
                            e1, uctx))
              | Some opt \<Rightarrow>
                  (let us1 = us\<lparr>retryCount := 0, waitingInput := False,
                                data := js_set (data us) (lit ''lastMenuChoice'') (VStr (opt_id opt))\<rparr>;
                       e1 = saveUserContext (put_state e ph us1) ph
                              ((case js_get uctx (lit ''name'') of
                                  Own n \<Rightarrow> [(lit ''name'', n)]
                                | _ \<Rightarrow> [])
                               @ [(lit ''lastMenuChoice'', VStr (opt_id opt))])
                   in if opt_action opt = Some (lit ''goto'') then
                        gotoFlow cfg now e1 ph (opt_target opt) us1 uctx
                      else if opt_action opt = Some (lit ''transfer_human'') then
                        (Inr (no_result\<lparr>r_message :=
                                           Some ([55358, 56605] @ lit '' Conectando voc'' @ [234]
                                                 @ lit '' com um atendente humano...''),
                                         r_action := Some (lit ''transfer_human''),
                                         r_transferComplete := True\<rparr>),
                         e1, uctx)
                      else if opt_action opt = Some (lit ''transfer_department'') then
                        (Inr (no_result\<lparr>r_message := getDepartmentTransferMessage cfg (opt_target opt),
                                         r_action := Some (lit ''transfer_department''),
                                         r_departmentId := opt_target opt,
                                         r_transferComplete := True\<rparr>),
                         e1, uctx)
                      else
                        (Inr (no_result\<lparr>r_message := Some (lit ''Erro no menu.''),
                                         r_error := True\<rparr>),
                         e1, uctx)))))"

text \<open>\<^verbatim>\<open>validation.error\<close> inside the template of the retry message.\<close>

fun validation_error_text :: "validation \<Rightarrow> jsstring" where
  "validation_error_text (VFail err) = err"
| "validation_error_text (VOk v) = lit ''undefined''"
| "validation_error_text VForeign = lit ''undefined''"

definition handleCaptureDataStep ::
  "platform \<Rightarrow> config \<Rightarrow> engine \<Rightarrow> jsstring \<Rightarrow> jsstring \<Rightarrow> step \<Rightarrow> userState \<Rightarrow> user_context
   \<Rightarrow> outcome" where
  "handleCaptureDataStep js cfg e ph message st us uctx =
     (if \<not> waitingInput us then
        (case replaceVariables js (s_message st) us uctx of
           Inl err \<Rightarrow> (Inl err, e, uctx)
         | Inr question \<Rightarrow>
             (Inr (no_result\<lparr>r_message := Some question, r_waitingInput := True\<rparr>),
              put_state e ph (us\<lparr>waitingInput := True,
                                 expectedInput := s_field st,
                                 validationType := s_validation st\<rparr>),
              uctx))
      else
        (case validateInput js message (s_validation st) of
           Inl err \<Rightarrow> (Inl err, e, uctx)
         | Inr validation \<Rightarrow>
             (case validation of
                VOk v \<Rightarrow>
                  (let us1 = us\<lparr>data := js_set (data us) (key_of (s_field st)) v\<rparr>;
                       path = split_on 46 (or_else (s_save_to st) []);
                       saves = (present (s_save_to st) \<and> hd path = lit ''user_context'');
                       uctx1 = (if saves then js_set uctx (key_of (nth_opt path 1)) v else uctx);
                       e1 = (if saves then saveUserContext e ph uctx1 else e);
                       us2 = us1\<lparr>waitingInput := False, retryCount := 0\<rparr>
                   in case move_if cfg us2 (s_next st) of
                        Inl err \<Rightarrow> (Inl err, put_state e1 ph us2, uctx1)
                      | Inr us3 \<Rightarrow>
                          (Inr (no_result\<lparr>r_message := Some ([9989] @ lit '' Perfeito!''),
                                           r_delay := Some 500,
                                           r_continue := present (s_next st)\<rparr>),
                           put_state e1 ph us3, uctx1))
              | _ \<Rightarrow>
                  (let us1 = us\<lparr>retryCount := retryCount us + 1\<rparr>;
                       e1 = put_state e ph us1
                   in if retryCount us1 \<ge> 3
                      then handleMaxRetriesExceeded cfg e1 ph uctx
                      else (Inr (no_result\<lparr>r_message :=
                                             Some ([10060, 32] @ validation_error_text validation
                                                   @ [10, 10] @ template_text (s_message st)),
                                           r_waitingInput := True\<rparr>),
                            e1, uctx)))))"

text \<open>
  The test of \<^verbatim>\<open>handleQuickReplyStep\<close> on one option, for the reply lower-cased
  and trimmed.
\<close>

definition quick_match :: "platform \<Rightarrow> jsstring \<Rightarrow> step_option \<Rightarrow> bool" where
  "quick_match js sanitized opt =
     (toLowerCase js (opt_id opt) = sanitized
      \<or> str_includes (toLowerCase js (opt_label opt)) sanitized)"

definition msg_invalid_reply :: jsstring where
  "msg_invalid_reply =
     [10060] @ lit '' Resposta inv'' @ [225] @ lit ''lida. Escolha uma das op'' @ [231, 245]
     @ lit ''es acima.''"

definition msg_understood :: jsstring where
  "msg_understood = [9989] @ lit '' Entendido!''"

definition msg_back_to_menu :: jsstring where
  "msg_back_to_menu = [55357, 56580] @ lit '' Voltando ao menu principal...''"

definition handleQuickReplyStep ::
  "platform \<Rightarrow> config \<Rightarrow> engine \<Rightarrow> jsstring \<Rightarrow> jsstring \<Rightarrow> step \<Rightarrow> userState \<Rightarrow> user_context
   \<Rightarrow> outcome" where
  "handleQuickReplyStep js cfg e ph message st us uctx =
     (if \<not> waitingInput us then
        (case replaceVariables js (s_message st) us uctx of
           Inl err \<Rightarrow> (Inl err, e, uctx)
         | Inr msg \<Rightarrow>
             (case s_options st of
                None \<Rightarrow> (Inl (cannot_read ''map''), e, uctx)
              | Some opts \<Rightarrow>
                  (Inr (no_result\<lparr>r_message :=
                                     Some (msg @ [10, 10]
                                           @ join_with [10] (map (\<lambda>opt. [8226, 32] @ opt_label opt) opts)),
                                   r_waitingInput := True\<rparr>),
                   put_state e ph (us\<lparr>waitingInput := True, quickReplyOptions := Some opts\<rparr>),
                   uctx)))
      else
        (case s_options st of
           None \<Rightarrow> (Inl (cannot_read ''find''), e, uctx)
         | Some opts \<Rightarrow>
             (case find (quick_match js (trim (toLowerCase js message))) opts of
                None \<Rightarrow>
                  (Inr (no_result\<lparr>r_message := Some msg_invalid_reply, r_waitingInput := True\<rparr>),
                   e, uctx)
              | Some opt \<Rightarrow>
                  (let us1 = us\<lparr>waitingInput := False,
                                data := js_set (data us) (lit ''quickReply'') (VStr (opt_id opt))\<rparr>;
                       e1 = put_state e ph us1
                   in if present (opt_next opt) then
                        (if opt_next opt = Some (lit ''main_flow'') then
                           (Inr (no_result\<lparr>r_message := Some msg_back_to_menu,
                                            r_restart := True\<rparr>),
                            resetUserFlow e1 ph, uctx)
                         else
                           (case move_if cfg us1 (opt_next opt) of
                              Inl err \<Rightarrow> (Inl err, e1, uctx)
                            | Inr us2 \<Rightarrow>
                                (Inr (no_result\<lparr>r_message := Some msg_understood,
                                                 r_continue := True\<rparr>),
                                 put_state e1 ph us2, uctx)))
                      else
                        (Inr (no_result\<lparr>r_message := Some msg_understood,
                                         r_continue := False\<rparr>),
                         e1, uctx)))))"

text \<open>
  The matching engine, as the flow engine sees it: the reply and the confidence that
  \<^verbatim>\<open>AIBrain.processMessage\<close> returns for a message.
\<close>

type_synonym matching_engine = "jsstring \<Rightarrow> user_context \<Rightarrow> jsstring \<times> real"

definition handleAIResponseStep ::
  "config \<Rightarrow> matching_engine \<Rightarrow> engine \<Rightarrow> jsstring \<Rightarrow> jsstring \<Rightarrow> step \<Rightarrow> userState
   \<Rightarrow> user_context \<Rightarrow> outcome" where
  "handleAIResponseStep cfg ai e ph message st us uctx =
     (case ai_enabled cfg of
        None \<Rightarrow> (Inl (cannot_read ''enabled''), e, uctx)
      | Some enabled \<Rightarrow>
          if \<not> enabled then
            (if present (s_fallback st) then
               (case move_if cfg us (s_fallback st) of
                  Inl err \<Rightarrow> (Inl err, e, uctx)
                | Inr us' \<Rightarrow> (Inr (no_result\<lparr>r_continue := True\<rparr>), put_state e ph us', uctx))
             else
               (Inr (no_result\<lparr>r_message :=
                                  Some (lit ''IA n'' @ [227] @ lit ''o dispon'' @ [237]
                                        @ lit ''vel no momento.'')\<rparr>),
                e, uctx))
          else
            (let aiResponse = ai message uctx
             in if (case s_confidence_threshold st of
                      None \<Rightarrow> False
                    | Some t \<Rightarrow> snd aiResponse \<ge> t)
                then
                  (Inr (no_result\<lparr>r_message := Some (fst aiResponse),
                                   r_confidence := Some (snd aiResponse),
                                   r_fromAI := True\<rparr>),
                   put_state e ph
                     (us\<lparr>data := js_set (data us) (lit ''aiResponse'') (VStr (fst aiResponse))\<rparr>),
                   uctx)
                else if present (s_fallback st) then
                  (case move_if cfg us (s_fallback st) of
                     Inl err \<Rightarrow> (Inl err, e, uctx)
                   | Inr us' \<Rightarrow>
                       (Inr (no_result\<lparr>r_message :=
                                          Some (lit ''Deixa eu te conectar com algu'' @ [233]
                                                @ lit ''m que pode te ajudar melhor!''),
                                        r_continue := True\<rparr>),
                        put_state e ph us', uctx))
                else
                  (Inr (no_result\<lparr>r_message :=
                                     Some (lit ''N'' @ [227]
                                           @ lit ''o tenho certeza sobre isso. Vou te transferir para um especialista!''),
                                   r_action := Some (lit ''transfer_human'')\<rparr>),
                   e, uctx)))"

definition msg_action_unknown :: jsstring where
  "msg_action_unknown =
     lit ''A'' @ [231, 227] @ lit ''o n'' @ [227] @ lit ''o implementada.''"

definition handleActionStep ::
  "platform \<Rightarrow> config \<Rightarrow> engine \<Rightarrow> jsstring \<Rightarrow> step \<Rightarrow> userState \<Rightarrow> user_context \<Rightarrow> outcome" where
  "handleActionStep js cfg e ph st us uctx =
     (if s_action st = Some (lit ''transfer_department'') then
        (let dept = find (\<lambda>d. Some (dept_id d) = s_department_id st) (departments cfg);
             text = (if present (s_context_message st) then Inr (s_context_message st)
                     else (case dept of
                             None \<Rightarrow> Inl (cannot_read ''transfer_message'')
                           | Some d \<Rightarrow> Inr (dept_transfer_message d)))
         in case text of
              Inl err \<Rightarrow> (Inl err, e, uctx)
            | Inr t \<Rightarrow>
                (case replaceVariables js t us uctx of
                   Inl err \<Rightarrow> (Inl err, e, uctx)
                 | Inr msg \<Rightarrow>
                     (Inr (no_result\<lparr>r_message := Some msg,
                                      r_action := Some (lit ''transfer_department''),
                                      r_departmentId := s_department_id st,
                                      r_priority := Some (or_else (s_priority st) (lit ''normal'')),
                                      r_transferComplete := True\<rparr>),
                      e, uctx)))
      else if s_action st = Some (lit ''transfer_human'') then
        (Inr (no_result\<lparr>r_message :=
                           Some ([55358, 56605] @ lit '' Conectando voc'' @ [234]
                                 @ lit '' com um atendente...''),
                         r_action := Some (lit ''transfer_human''),
                         r_transferComplete := True\<rparr>),
         e, uctx)
      else if s_action st = Some (lit ''generate_boleto'') then
        (Inr (no_result\<lparr>r_message :=
                           Some (or_else (s_success_message st) (lit ''Boleto gerado com sucesso!'')),
                         r_action := Some (lit ''boleto_generated''),
                         r_continue := present (s_next st)\<rparr>),
         e, uctx)
      else if s_action st = Some (lit ''send_email'') then
        (Inr (no_result\<lparr>r_message := Some (lit ''E-mail enviado com sucesso!''),
                         r_continue := present (s_next st)\<rparr>),
         e, uctx)
      else
        (Inr (no_result\<lparr>r_message := Some msg_action_unknown, r_error := True\<rparr>), e, uctx))"

definition handleConditionStep ::
  "platform \<Rightarrow> config \<Rightarrow> engine \<Rightarrow> jsstring \<Rightarrow> step \<Rightarrow> userState \<Rightarrow> user_context \<Rightarrow> outcome" where
  "handleConditionStep js cfg e ph st us uctx =
     (let target = (if evaluateCondition js (s_condition st) us uctx then s_if_true st
                    else s_if_false st)
      in if present target then
           (case move_if cfg us target of
              Inl err \<Rightarrow> (Inl err, e, uctx)
            | Inr us' \<Rightarrow> (Inr (no_result\<lparr>r_continue := True\<rparr>), put_state e ph us', uctx))
         else
           (Inr (no_result\<lparr>r_message :=
                              Some (lit ''Erro na condi'' @ [231, 227] @ lit ''o.'')\<rparr>),
            e, uctx))"

section \<open>The flow engine: processing a message\<close>

definition known_step_types :: "jsstring list" where
  "known_step_types = map lit
     [''message'', ''menu'', ''capture_data'', ''quick_reply'', ''ai_response'', ''action'',
      ''condition'']"

definition known_actions :: "jsstring list" where
  "known_actions = map lit
     [''transfer_department'', ''transfer_human'', ''generate_boleto'', ''send_email'']"

definition processStep ::
  "platform \<Rightarrow> config \<Rightarrow> matching_engine \<Rightarrow> nat \<Rightarrow> engine \<Rightarrow> jsstring \<Rightarrow> jsstring \<Rightarrow> userState
   \<Rightarrow> user_context \<Rightarrow> outcome" where
  "processStep js cfg ai now e ph message us uctx =
     (case js_get (flows cfg) (key_of (currentFlow us)) of
        Absent \<Rightarrow> (Inl (cannot_read ''steps''), e, uctx)
      | Inherited \<Rightarrow> (Inl (cannot_read ''0''), e, uctx)
      | Own fl \<Rightarrow>
          (if currentStep us < length (steps fl) then
             (let st = steps fl ! currentStep us;
                  us1 = us\<lparr>history := history us
                              @ [\<lparr>h_stepId = s_id st, h_type = s_type st, h_input = message,
                                  h_timestamp = now\<rparr>]\<rparr>;
                  e1 = put_state e ph us1
              in if s_type st = lit ''message'' then handleMessageStep js cfg e1 ph st us1 uctx
                 else if s_type st = lit ''menu'' then
                   handleMenuStep js cfg now e1 ph message st us1 uctx
                 else if s_type st = lit ''capture_data'' then
                   handleCaptureDataStep js cfg e1 ph message st us1 uctx
                 else if s_type st = lit ''quick_reply'' then
                   handleQuickReplyStep js cfg e1 ph message st us1 uctx
                 else if s_type st = lit ''ai_response'' then
                   handleAIResponseStep cfg ai e1 ph message st us1 uctx
                 else if s_type st = lit ''action'' then handleActionStep js cfg e1 ph st us1 uctx
                 else if s_type st = lit ''condition'' then
                   handleConditionStep js cfg e1 ph st us1 uctx
                 else
                   (Inr (no_result\<lparr>r_message := Some (lit ''Erro no fluxo.''), r_error := True\<rparr>),
                    e1, uctx))
           else (Inl (cannot_read ''id''), e, uctx)))"

definition msg_apology :: jsstring where
  "msg_apology = lit ''Desculpe, ocorreu um erro. Vou te conectar com um atendente.''"

text \<open>The body of the \<^verbatim>\<open>try\<close> of \<^verbatim>\<open>processMessage\<close>.\<close>

definition processMessage_try ::
  "platform \<Rightarrow> config \<Rightarrow> matching_engine \<Rightarrow> nat \<Rightarrow> engine \<Rightarrow> jsstring \<Rightarrow> jsstring \<Rightarrow> user_context
   \<Rightarrow> outcome" where
  "processMessage_try js cfg ai now e ph message uctx =
     (let flowId = (if mode cfg = lit ''atendimento'' then atendimento_flowId cfg
                    else triagem_flowId cfg);
          started =
            (case getUserState e ph of
               None \<Rightarrow> initializeUserFlow cfg now e ph flowId uctx
             | Some us \<Rightarrow>
                 if \<not> present (currentFlow us) then initializeUserFlow cfg now e ph flowId uctx
                 else (Inr (Some us), e))
      in case started of
           (Inl err, e1) \<Rightarrow> (Inl err, e1, uctx)
         | (Inr None, e1) \<Rightarrow>
             (Inl (TypeError (lit ''Cannot read properties of null (reading '' @ [39]
                              @ lit ''currentFlow'' @ [39] @ lit '')'')), e1, uctx)
         | (Inr (Some us), e1) \<Rightarrow> processStep js cfg ai now e1 ph message us uctx)"

text \<open>\<^verbatim>\<open>processMessage\<close>: every exception becomes the apology with a transfer.\<close>

definition processMessage ::
  "platform \<Rightarrow> config \<Rightarrow> matching_engine \<Rightarrow> nat \<Rightarrow> engine \<Rightarrow> jsstring \<Rightarrow> jsstring \<Rightarrow> user_context
   \<Rightarrow> flow_result \<times> engine \<times> user_context" where
  "processMessage js cfg ai now e ph message uctx =
     (case processMessage_try js cfg ai now e ph message uctx of
        (Inl err, e1, uctx1) \<Rightarrow>
          (no_result\<lparr>r_message := Some msg_apology,
                     r_action := Some (lit ''transfer_human''),
                     r_error := True\<rparr>, e1, uctx1)
      | (Inr result, e1, uctx1) \<Rightarrow> (result, e1, uctx1))"
section \<open>A stand-in for the platform\<close>

text \<open>
  The examples are evaluated on a stand-in for the platform that is exact on their
  texts: it folds and decomposes the letters of Basic Latin and of the Latin-1
  Supplement and leaves every other code unit as it is, it prints a numeral as it was
  written, which is right for a numeral such as \<^verbatim>\<open>42\<close> or \<^verbatim>\<open>1.5\<close>, and it
  takes a number for zero when its mantissa has no digit other than 0.
\<close>

text \<open>
  The canonical decomposition of the letters of the Latin-1 Supplement: the base
  letter and its combining mark.
\<close>

definition nfd_lower :: "nat \<Rightarrow> jsstring" where
  "nfd_lower c =
     (if c = 224 then [97, 768] else if c = 225 then [97, 769]
      else if c = 226 then [97, 770] else if c = 227 then [97, 771]
      else if c = 228 then [97, 776] else if c = 229 then [97, 778]
      else if c = 231 then [99, 807]
      else if c = 232 then [101, 768] else if c = 233 then [101, 769]
      else if c = 234 then [101, 770] else if c = 235 then [101, 776]
      else if c = 236 then [105, 768] else if c = 237 then [105, 769]
      else if c = 238 then [105, 770] else if c = 239 then [105, 776]
      else if c = 241 then [110, 771]
      else if c = 242 then [111, 768] else if c = 243 then [111, 769]
      else if c = 244 then [111, 770] else if c = 245 then [111, 771]
      else if c = 246 then [111, 776]
      else if c = 249 then [117, 768] else if c = 250 then [117, 769]
      else if c = 251 then [117, 770] else if c = 252 then [117, 776]
      else if c = 253 then [121, 769] else if c = 255 then [121, 776]
      else [c])"

definition nfd_unit :: "nat \<Rightarrow> jsstring" where
  "nfd_unit c =
     (if 192 \<le> c \<and> c \<le> 221 then
        (case nfd_lower (c + 32) of
           [b, m] \<Rightarrow> [b - 32, m]
         | _ \<Rightarrow> [c])
      else nfd_lower c)"

definition latin1 :: platform where
  "latin1 =
     \<lparr>toLowerCase = map lowerUnit,
      normalizeNFD = (\<lambda>s. concat (map nfd_unit s)),
      numberToString = (\<lambda>n. n),
      numberTruthy =
        (\<lambda>n. \<exists>d \<in> set (takeWhile (\<lambda>c. c \<noteq> 101 \<and> c \<noteq> 69) n).
                 (49 \<le> d \<and> d \<le> 57) \<or> d = 73)\<rparr>"

section \<open>Situations and example configurations of the flow engine\<close>

text \<open>
  The situation of a message that is input to a step: the sender has a state whose
  flow is in the configuration and whose step index points at \<open>st\<close>.
\<close>

definition at_step :: "config \<Rightarrow> engine \<Rightarrow> jsstring \<Rightarrow> userState \<Rightarrow> step \<Rightarrow> bool" where
  "at_step cfg e ph us st =
     (userStates e ph = Some us \<and> present (currentFlow us)
      \<and> (case js_get (flows cfg) (key_of (currentFlow us)) of
            Own fl \<Rightarrow> currentStep us < length (steps fl) \<and> steps fl ! currentStep us = st
          | _ \<Rightarrow> False))"

text \<open>The state once \<^verbatim>\<open>processStep\<close> has pushed the message to its history.\<close>

definition visited :: "userState \<Rightarrow> step \<Rightarrow> jsstring \<Rightarrow> nat \<Rightarrow> userState" where
  "visited us st message now =
     us\<lparr>history := history us
          @ [\<lparr>h_stepId = s_id st, h_type = s_type st, h_input = message, h_timestamp = now\<rparr>]\<rparr>"

text \<open>
  A flow of one step, a sender who is asked for input at that step and has been
  rejected \<open>r\<close> times, and a matching engine that knows nothing.
\<close>

definition example_step :: "string \<Rightarrow> string \<Rightarrow> step" where
  "example_step i t =
     \<lparr>s_id = lit i, s_type = lit t, s_message = Some (lit ''Escolha:''), s_next = None,
      s_delay = None, s_options = None, s_max_retries = None, s_retry_message = None,
      s_field = None, s_validation = None, s_save_to = None, s_fallback = None,
      s_confidence_threshold = None, s_action = None, s_department_id = None,
      s_context_message = None, s_notify_human = False, s_priority = None,
      s_success_message = None, s_condition = None, s_if_true = None, s_if_false = None\<rparr>"



definition example_config :: "bool \<Rightarrow> step \<Rightarrow> config" where
  "example_config transfer st =
     \<lparr>mode = lit ''atendimento'', atendimento_flowId = Some (lit ''main''),
      triagem_flowId = Some (lit ''triagem''),
      flows = [(lit ''main'', \<lparr>steps = [st]\<rparr>)], departments = [],
      fallback = Some \<lparr>transfer_after_limit = transfer,
                       transfer_message = Some (lit ''Transferindo para um atendente.'')\<rparr>,
      ai_enabled = Some False\<rparr>"

definition no_users :: engine where
  "no_users = \<lparr>userStates = (\<lambda>ph. None), savedContexts = []\<rparr>"

definition no_ai :: matching_engine where
  "no_ai = (\<lambda>message uctx. ([], 0))"

definition example_user :: "step \<Rightarrow> nat \<Rightarrow> userState" where
  "example_user st r =
     \<lparr>phone = lit ''5511'', currentFlow = Some (lit ''main''), currentStep = 0,
      stepId = s_id st, data = [], us_context = [], retryCount = r, history = [],
      startedAt = 0, waitingInput = True, expectedInput = None, menuOptions = None,
      validationType = None, quickReplyOptions = None, previousFlow = None\<rparr>"

definition example_engine :: "userState \<Rightarrow> engine" where
  "example_engine us = put_state no_users (lit ''5511'') us"

definition example_unknown :: step where
  "example_unknown = example_step ''inicio'' ''survey''"


section \<open>The persistence gateway: the table of training examples\<close>

text \<open>
  A row of the table \<^verbatim>\<open>ai_training\<close>. Times are milliseconds, as integers.
\<close>

record training_row =
  t_id :: nat
  t_input :: jsstring
  t_output :: jsstring
  t_confidence :: real
  t_usage_count :: nat
  t_approved :: nat

type_synonym database = "training_row list"

text \<open>
  \<^verbatim>\<open>saveTrainingData(input, output, confidence = 0)\<close> inserts the three columns it
  is given: the row gets the next id and the defaults of the table for the rest, so
  \<^verbatim>\<open>approved\<close> is 0. A fourth argument of a caller is not a parameter of the
  function and is dropped.
\<close>

definition next_id :: "database \<Rightarrow> nat" where
  "next_id db = Suc (fold max (map t_id db) 0)"

definition saveTrainingData :: "database \<Rightarrow> jsstring \<Rightarrow> jsstring \<Rightarrow> real \<Rightarrow> database" where
  "saveTrainingData db inp out conf =
     db @ [\<lparr>t_id = next_id db, t_input = inp, t_output = out, t_confidence = conf,
            t_usage_count = 0, t_approved = 0\<rparr>]"

text \<open>
  \<^verbatim>\<open>SELECT * FROM ai_training WHERE approved = 1 ORDER BY usage_count DESC\<close>; rows
  of equal usage are given in the order of the table.
\<close>

definition getTrainingData :: "database \<Rightarrow> training_row list" where
  "getTrainingData db =
     rev (sort_key t_usage_count (rev (filter (\<lambda>r. t_approved r = 1) db)))"

definition updateTrainingUsage :: "database \<Rightarrow> nat \<Rightarrow> database" where
  "updateTrainingUsage db i =
     map (\<lambda>r. if t_id r = i then r\<lparr>t_usage_count := Suc (t_usage_count r)\<rparr> else r) db"

section \<open>The matching engine: text preparation\<close>

text \<open>What a caller may pass as the message: a string, or any other value.\<close>

datatype js_input = JString jsstring | JOther

text \<open>\<^verbatim>\<open>s.replace(/<[^>]*>/g, '')\<close>: from a \<open><\<close> to the next \<open>>\<close>, if there is one.\<close>

function remove_tags :: "jsstring \<Rightarrow> jsstring" where
  "remove_tags [] = []"
| "remove_tags (c # cs) =
     (if c = 60 \<and> dropWhile (\<lambda>d. d \<noteq> 62) cs \<noteq> []
      then remove_tags (tl (dropWhile (\<lambda>d. d \<noteq> 62) cs))
      else c # remove_tags cs)"
  by pat_completeness auto
termination
proof (relation "measure length")
  show "wf (measure length)" by simp
next
  fix c :: nat and cs :: jsstring
  have "length (tl (dropWhile (\<lambda>d. d \<noteq> 62) cs)) \<le> length cs"
    using length_dropWhile_le [of "\<lambda>d. d \<noteq> 62" cs] by simp
  then show "(tl (dropWhile (\<lambda>d. d \<noteq> 62) cs), c # cs) \<in> measure length"
    by simp
next
  fix c :: nat and cs :: jsstring
  show "(cs, c # cs) \<in> measure length" by simp
qed

definition sanitizeInput :: "js_input \<Rightarrow> jsstring" where
  "sanitizeInput text =
     (case text of
        JOther \<Rightarrow> []
      | JString s \<Rightarrow>
          if s = [] then []
          else take 1000
                 (filter (\<lambda>c. c \<noteq> 60 \<and> c \<noteq> 62 \<and> c \<noteq> 34 \<and> c \<noteq> 39)
                    (remove_tags (trim s))))"

text \<open>\<^verbatim>\<open>s.replace(/\s+/g, ' ')\<close>\<close>

fun collapse_spaces :: "jsstring \<Rightarrow> jsstring" where
  "collapse_spaces [] = []"
| "collapse_spaces [c] = (if isWhiteSpace c then [32] else [c])"
| "collapse_spaces (c # d # cs) =
     (if isWhiteSpace c then
        (if isWhiteSpace d then collapse_spaces (d # cs) else 32 # collapse_spaces (d # cs))
      else c # collapse_spaces (d # cs))"

definition preprocessText :: "platform \<Rightarrow> jsstring \<Rightarrow> jsstring" where
  "preprocessText js text =
     trim (collapse_spaces
       (map (\<lambda>c. if isWordChar c \<or> isWhiteSpace c then c else 32)
          (filter (\<lambda>c. \<not> (768 \<le> c \<and> c \<le> 879))
             (normalizeNFD js (toLowerCase js text)))))"

section \<open>The matching engine: collaborators, configuration and state\<close>

text \<open>What \<^verbatim>\<open>bayesClassifier.classify\<close> does: it throws, or returns a label.\<close>

datatype classified = ClassifyThrows | Classified jsstring

text \<open>
  An entry of the list that \<^verbatim>\<open>AIBrain.findSimilarResponses\<close> makes.
\<close>

record similar_response =
  sr_id :: nat
  sr_input :: jsstring
  sr_output :: jsstring
  sr_confidence :: real
  sr_usageCount :: nat

text \<open>
  The libraries the engines call (\<^verbatim>\<open>natural\<close>, \<^verbatim>\<open>sentiment\<close>,
  \<^verbatim>\<open>compromise\<close>) are parameters of the model. A call that the source does not
  wrap in a \<^verbatim>\<open>try\<close> of its own may throw.
  \<^item> \<open>sentiment_analyze\<close>: score, comparative score, positive and negative words;
  \<^item> \<open>sentiment_tokens\<close>: the tokens of the same analysis, which \<^verbatim>\<open>AIBrain\<close>
    reports;
  \<^item> \<open>entities_of\<close>: \<^verbatim>\<open>AdvancedAIBrain.extractEntities\<close>, an annotation, which
    catches what it throws;
  \<^item> \<open>entities_v1\<close>: \<^verbatim>\<open>AIBrain.extractEntities\<close>, which does not;
  \<^item> \<open>keywords_of\<close>: \<^verbatim>\<open>extractKeywords\<close>, an annotation made with the tokenizer
    and the stemmer;
  \<^item> \<open>tfidfs\<close>: the measure of a query for each document added so far;
  \<^item> \<open>levenshtein\<close>, \<open>jaroWinkler\<close>: the two string distances;
  \<^item> \<open>bayes_classify\<close>: the classifier, for the documents it was trained with;
  \<^item> \<open>tokenize\<close>: the word tokenizer;
  \<^item> \<open>sort_similar\<close>: \<^verbatim>\<open>Array.prototype.sort\<close> with the comparator of
    \<^verbatim>\<open>AIBrain.findSimilarResponses\<close>, which is no consistent order, so that the
    order of the result is the engine's.
\<close>

record nlp =
  sentiment_analyze :: "jsstring \<Rightarrow> js_error + (int \<times> real \<times> jsstring list \<times> jsstring list)"
  sentiment_tokens :: "jsstring \<Rightarrow> jsstring list"
  entities_of :: "jsstring \<Rightarrow> (jsstring \<times> jsstring list) list"
  entities_v1 :: "jsstring \<Rightarrow> js_error + (jsstring \<times> jsstring list) list"
  keywords_of :: "jsstring \<Rightarrow> js_error + jsstring list"
  tfidfs :: "jsstring list \<Rightarrow> jsstring \<Rightarrow> js_error + real list"
  levenshtein :: "jsstring \<Rightarrow> jsstring \<Rightarrow> nat"
  jaroWinkler :: "jsstring \<Rightarrow> jsstring \<Rightarrow> real"
  bayes_classify :: "(jsstring \<times> jsstring) list \<Rightarrow> jsstring \<Rightarrow> classified"
  tokenize :: "jsstring \<Rightarrow> jsstring list"
  sort_similar :: "similar_response list \<Rightarrow> similar_response list"

record weights =
  w_tfidf :: real
  w_levenshtein :: real
  w_jaroWinkler :: real
  w_bayes :: real
  w_context :: real

record brain_config =
  minConfidence :: real
  learningEnabled :: bool
  maxContextSize :: nat
  similarityThreshold :: real
  algorithm_weights :: weights
  cacheEnabled :: bool
  cacheMaxSize :: nat
  cacheTTL :: int

text \<open>The configuration of the constructor, with no environment variable set.\<close>

definition default_config :: brain_config where
  "default_config =
     \<lparr>minConfidence = 0.75, learningEnabled = False, maxContextSize = 10,
      similarityThreshold = 0.85,
      algorithm_weights = \<lparr>w_tfidf = 0.30, w_levenshtein = 0.25, w_jaroWinkler = 0.20,
                             w_bayes = 0.15, w_context = 0.10\<rparr>,
      cacheEnabled = True, cacheMaxSize = 1000, cacheTTL = 3600000\<rparr>"

record sentiment_result =
  sn_score :: int
  sn_comparative :: real
  sn_label :: jsstring
  sn_emotions :: "jsstring list"
  sn_positive :: "jsstring list"
  sn_negative :: "jsstring list"

text \<open>The result object of \<^verbatim>\<open>processMessage\<close>.\<close>

record ai_result =
  a_response :: jsstring
  a_confidence :: real
  a_sentiment :: sentiment_result
  a_intent :: jsstring
  a_entities :: "(jsstring \<times> jsstring list) list"
  a_keywords :: "jsstring list"
  a_needsHumanHandoff :: bool
  a_processingTime :: "int option"
  a_algorithm :: "jsstring option"
  a_error :: "jsstring option"

record context_entry =
  ce_message :: jsstring
  ce_intent :: jsstring
  ce_sentiment :: jsstring
  ce_timestamp :: int

record cache_entry =
  c_response :: ai_result
  c_timestamp :: int

text \<open>
  The counters of the statistics. The two distribution tables of the source are
  write-only and are left out.
\<close>

record brain_stats =
  totalProcessed :: nat
  cacheHits :: nat
  averageConfidence :: real

text \<open>
  The state of the engine. The two \<^verbatim>\<open>Map\<close>s keep their keys in the order of
  insertion. \<open>tfidf_documents\<close> and \<open>bayes_documents\<close> are what was added to the
  TF-IDF index and to the classifier.
\<close>

record brain =
  trainingData :: "training_row list"
  tfidf_documents :: "jsstring list"
  bayes_documents :: "(jsstring \<times> jsstring) list"
  conversationContext :: "(jsvalue \<times> context_entry list) list"
  responseCache :: "(jsstring \<times> cache_entry) list"
  stats :: brain_stats
  db :: database

section \<open>The matching engine: intent detection\<close>

text \<open>
  \<^verbatim>\<open>/^(a|b|...)/i\<close>, \<^verbatim>\<open>/(a|b|...)/i\<close>: one of the words, at the start of
  the text or anywhere in it, whatever the case.
\<close>

definition starts_with_any :: "jsstring list \<Rightarrow> jsstring \<Rightarrow> bool" where
  "starts_with_any ws text = test_start (rx_alts (map rx_ilit ws)) text"

definition contains_any :: "jsstring list \<Rightarrow> jsstring \<Rightarrow> bool" where
  "contains_any ws text = test_any (rx_alts (map rx_ilit ws)) text"

text \<open>
  The table of \<^verbatim>\<open>initializeIntentPatterns\<close>, in the order of its keys, which
  is the order in which \<^verbatim>\<open>Object.entries\<close> gives them (none of the keys is a
  number).
\<close>

definition initializeIntentPatterns :: "(jsstring \<times> (jsstring \<Rightarrow> bool) list) list" where
  "initializeIntentPatterns =
     [(lit ''greeting'',
       [starts_with_any [lit ''oi'', lit ''ola'', lit ''ol'' @ [225], lit ''hey'', lit ''opa'',
                         lit ''eae'', lit ''e ai'', lit ''bom dia'', lit ''boa tarde'',
                         lit ''boa noite'']]),
      (lit ''farewell'',
       [starts_with_any [lit ''tchau'', lit ''ate logo'', lit ''at'' @ [233] @ lit '' logo'',
                         lit ''falou'', lit ''flw'', lit ''adeus'', lit ''bye'',
                         lit ''at'' @ [233] @ lit '' mais'']]),
      (lit ''gratitude'',
       [test_any (rx_alts [Cat (rx_ilit (lit ''obrigad''))
                             (Cls (\<lambda>c. lowerUnit c = 111 \<or> lowerUnit c = 97)),
                           rx_ilit (lit ''valeu''), rx_ilit (lit ''vlw''),
                           rx_ilit (lit ''thanks''),
                           rx_ilit (lit ''agrade'' @ [231] @ lit ''o'')])]),
      (lit ''question'',
       [starts_with_any [lit ''qual'', lit ''como'', lit ''quando'', lit ''onde'',
                         lit ''por que'', lit ''porque'', lit ''quem'', lit ''quanto''],
        test_end (rx_lit (lit ''?''))]),
      (lit ''complaint'',
       [contains_any [lit ''problema'', lit ''erro'', lit ''bug'', lit ''falha'',
                      lit ''n'' @ [227] @ lit ''o funciona'', lit ''nao funciona'',
                      lit ''reclama'' @ [231, 227] @ lit ''o'']]),
      (lit ''praise'',
       [contains_any [lit ''parab'' @ [233] @ lit ''ns'', lit ''parabens'', lit ''excelente'',
                      [243] @ lit ''timo'', lit ''otimo'', lit ''perfeito'',
                      lit ''maravilhoso'', lit ''amei'']]),
      (lit ''help'',
       [contains_any [lit ''ajuda'', lit ''socorro'', lit ''help'', lit ''duvida'',
                      lit ''d'' @ [250] @ lit ''vida'', lit ''como fa'' @ [231] @ lit ''o'',
                      lit ''como faco'']]),
      (lit ''purchase'',
       [contains_any [lit ''comprar'', lit ''adquirir'', lit ''contratar'', lit ''quero'',
                      lit ''preciso'', lit ''gostaria de'', lit ''pre'' @ [231] @ lit ''o'',
                      lit ''preco'', lit ''valor'']]),
      (lit ''support'',
       [contains_any [lit ''suporte'', lit ''atendimento'', lit ''falar com'',
                      lit ''preciso de ajuda'']]),
      (lit ''cancel'',
       [contains_any [lit ''cancelar'', lit ''desistir'', lit ''n'' @ [227] @ lit ''o quero'',
                      lit ''nao quero'', lit ''encerrar'']]),
      (lit ''confirm'',
       [starts_with_any [lit ''sim'', lit ''yes'', lit ''claro'', lit ''com certeza'',
                         lit ''pode ser'', lit ''ok'', lit ''okay'', lit ''certo'']]),
      (lit ''deny'',
       [starts_with_any [lit ''n'' @ [227] @ lit ''o'', lit ''nao'', lit ''no'',
                         lit ''negativo'', lit ''nunca'', lit ''jamais'']])]"

text \<open>
  The two loops of \<^verbatim>\<open>detectIntent\<close>: over the patterns of one intent, and over
  the intents of the table.
\<close>

fun some_pattern :: "(jsstring \<Rightarrow> bool) list \<Rightarrow> jsstring \<Rightarrow> bool" where
  "some_pattern [] text = False"
| "some_pattern (pattern # patterns) text =
     (if pattern text then True else some_pattern patterns text)"

fun first_intent :: "(jsstring \<times> (jsstring \<Rightarrow> bool) list) list \<Rightarrow> jsstring \<Rightarrow> jsstring option" where
  "first_intent [] text = None"
| "first_intent ((intent, patterns) # table) text =
     (if some_pattern patterns text then Some intent else first_intent table text)"

definition detectIntent :: "nlp \<Rightarrow> brain \<Rightarrow> jsstring \<Rightarrow> jsstring" where
  "detectIntent lib b text =
     (case first_intent initializeIntentPatterns text of
        Some intent \<Rightarrow> intent
      | None \<Rightarrow>
          (case bayes_classify lib (bayes_documents b) text of
             ClassifyThrows \<Rightarrow> lit ''unknown''
           | Classified classification \<Rightarrow>
               if classification \<noteq> [] then classification else lit ''unknown''))"

definition extractIntentFromResponse :: "jsstring \<Rightarrow> jsstring" where
  "extractIntentFromResponse response =
     (if contains_any [lit ''sauda'' @ [231, 227] @ lit ''o'', lit ''ol'' @ [225],
                       lit ''bem-vindo''] response
        then lit ''greeting''
      else if contains_any [lit ''pagamento'', lit ''boleto'', lit ''pix''] response
        then lit ''payment''
      else if contains_any [lit ''suporte'', lit ''ajuda''] response then lit ''support''
      else lit ''general'')"

section \<open>The matching engine: sentiment\<close>

definition emotionPatterns :: "(jsstring \<times> jsstring list) list" where
  "emotionPatterns =
     [(lit ''joy'', [lit ''feliz'', lit ''alegre'', lit ''contente'', lit ''animado'',
                     lit ''satisfeito'', lit ''maravilhoso'', [243] @ lit ''timo'',
                     lit ''excelente'']),
      (lit ''sadness'', [lit ''triste'', lit ''chateado'', lit ''decepcionado'',
                         lit ''frustrado'', lit ''infeliz'']),
      (lit ''anger'', [lit ''raiva'', lit ''irritado'', lit ''furioso'', lit ''bravo'',
                       lit ''puto'', lit ''revoltado'']),
      (lit ''fear'', [lit ''medo'', lit ''receio'', lit ''preocupado'', lit ''ansioso'',
                      lit ''nervoso'']),
      (lit ''surprise'', [lit ''surpreso'', lit ''chocado'', lit ''impressionado'',
                          lit ''uau'']),
      (lit ''disgust'', [lit ''nojo'', lit ''repugnante'', lit ''horr'' @ [237] @ lit ''vel'',
                         lit ''p'' @ [233] @ lit ''ssimo''])]"

definition detectEmotions :: "jsstring \<Rightarrow> jsstring list" where
  "detectEmotions text =
     map fst (filter (\<lambda>(emotion, ws). contains_any ws text) emotionPatterns)"

definition analyzeSentiment :: "nlp \<Rightarrow> jsstring \<Rightarrow> js_error + sentiment_result" where
  "analyzeSentiment lib text =
     (case sentiment_analyze lib text of
        Inl err \<Rightarrow> Inl err
      | Inr (score, comparative, pos, neg) \<Rightarrow>
          Inr \<lparr>sn_score = score, sn_comparative = comparative,
               sn_label = (if comparative > 0.2 then lit ''positive''
                           else if comparative < - 0.2 then lit ''negative''
                           else lit ''neutral''),
               sn_emotions = detectEmotions text, sn_positive = pos, sn_negative = neg\<rparr>)"

section \<open>The matching engine: conversation context and cache\<close>

text \<open>\<^verbatim>\<open>map.get(k)\<close>, \<^verbatim>\<open>map.set(k, v)\<close> and \<^verbatim>\<open>map.delete(k)\<close> of a \<^verbatim>\<open>Map\<close>.\<close>

definition map_get :: "('k \<times> 'v) list \<Rightarrow> 'k \<Rightarrow> 'v option" where
  "map_get m k = map_of m k"

definition map_set :: "('k \<times> 'v) list \<Rightarrow> 'k \<Rightarrow> 'v \<Rightarrow> ('k \<times> 'v) list" where
  "map_set m k v =
     (if map_of m k = None then m @ [(k, v)]
      else map (\<lambda>(k', v'). if k' = k then (k', v) else (k', v')) m)"

definition map_delete :: "('k \<times> 'v) list \<Rightarrow> 'k \<Rightarrow> ('k \<times> 'v) list" where
  "map_delete m k = filter (\<lambda>(k', v'). k' \<noteq> k) m"

text \<open>
  \<^verbatim>\<open>userContext.phone\<close>, when it is truthy: the key of the sender in the context
  map.
\<close>

definition phone_of :: "platform \<Rightarrow> user_context \<Rightarrow> jsvalue option" where
  "phone_of js uctx =
     (case js_get uctx (lit ''phone'') of
        Own v \<Rightarrow> if truthy js v then Some v else None
      | _ \<Rightarrow> None)"

definition getConversationContext :: "brain \<Rightarrow> jsvalue \<Rightarrow> context_entry list" where
  "getConversationContext b ph =
     (case map_get (conversationContext b) ph of None \<Rightarrow> [] | Some c \<Rightarrow> c)"

definition updateConversationContext ::
  "brain_config \<Rightarrow> brain \<Rightarrow> jsvalue option \<Rightarrow> context_entry \<Rightarrow> brain" where
  "updateConversationContext cfg b ph entry =
     (case ph of
        None \<Rightarrow> b
      | Some p \<Rightarrow>
          (let pushed = getConversationContext b p @ [entry];
               limited = (if length pushed > maxContextSize cfg then tl pushed else pushed)
           in b\<lparr>conversationContext := map_set (conversationContext b) p limited\<rparr>))"

text \<open>
  \<^verbatim>\<open>getCachedResponse\<close>: \<open>None\<close> is \<^verbatim>\<open>null\<close>. An entry that is too old is
  deleted.
\<close>

definition getCachedResponse ::
  "brain_config \<Rightarrow> int \<Rightarrow> brain \<Rightarrow> jsstring \<Rightarrow> ai_result option \<times> brain" where
  "getCachedResponse cfg now b message =
     (case map_get (responseCache b) message of
        None \<Rightarrow> (None, b)
      | Some cached \<Rightarrow>
          if now - c_timestamp cached > cacheTTL cfg
          then (None, b\<lparr>responseCache := map_delete (responseCache b) message\<rparr>)
          else (Some (c_response cached), b))"

definition cacheResponse ::
  "brain_config \<Rightarrow> int \<Rightarrow> brain \<Rightarrow> jsstring \<Rightarrow> ai_result \<Rightarrow> brain" where
  "cacheResponse cfg now b message response =
     (let pruned = (if length (responseCache b) \<ge> cacheMaxSize cfg
                    then (case responseCache b of
                            [] \<Rightarrow> []
                          | (firstKey, v) # rest \<Rightarrow> map_delete (responseCache b) firstKey)
                    else responseCache b)
      in b\<lparr>responseCache :=
             map_set pruned message \<lparr>c_response = response, c_timestamp = now\<rparr>\<rparr>)"

section \<open>The matching engine: loading and learning\<close>

text \<open>
  \<^verbatim>\<open>loadTrainingData\<close>: the approved rows, and each of them added to the TF-IDF
  index once more.
\<close>

definition loadTrainingData :: "platform \<Rightarrow> brain \<Rightarrow> brain" where
  "loadTrainingData js b =
     (let rows = filter (\<lambda>item. t_approved item = 1) (getTrainingData (db b))
      in b\<lparr>trainingData := rows,
            tfidf_documents := tfidf_documents b @ map (\<lambda>item. preprocessText js (t_input item)) rows\<rparr>)"

definition trainClassifiers :: "platform \<Rightarrow> brain \<Rightarrow> brain" where
  "trainClassifiers js b =
     (if trainingData b = [] then b
      else b\<lparr>bayes_documents :=
                bayes_documents b
                @ map (\<lambda>item. (preprocessText js (t_input item),
                                extractIntentFromResponse (t_output item)))
                    (trainingData b)\<rparr>)"

text \<open>
  \<^verbatim>\<open>AdvancedAIBrain.learn\<close>. Nothing in it can throw on strings, so it returns
  \<^verbatim>\<open>true\<close>.
\<close>

definition learn :: "platform \<Rightarrow> brain \<Rightarrow> jsstring \<Rightarrow> jsstring \<Rightarrow> bool \<Rightarrow> bool \<times> brain" where
  "learn js b inp out approved =
     (let confidence = (if approved then 1.0 else 0.8);
          b1 = b\<lparr>db := saveTrainingData (db b) inp out confidence\<rparr>;
          b2 = b1\<lparr>tfidf_documents := tfidf_documents b1 @ [preprocessText js inp]\<rparr>;
          b3 = loadTrainingData js b2;
          b4 = (if approved then trainClassifiers js b3 else b3)
      in (True, b4))"

definition learnFromInteraction ::
  "platform \<Rightarrow> brain_config \<Rightarrow> brain \<Rightarrow> jsstring \<Rightarrow> jsstring \<Rightarrow> real \<Rightarrow> brain" where
  "learnFromInteraction js cfg b inp out confidence =
     (if confidence \<ge> 0.85 \<and> learningEnabled cfg then snd (learn js b inp out False) else b)"

section \<open>The matching engine: scoring and fusion\<close>

record candidate =
  cd_text :: jsstring
  cd_confidence :: real
  cd_algorithm :: jsstring
  cd_trainingId :: nat

record response_group =
  g_text :: jsstring
  g_confidence :: real
  g_algorithms :: "jsstring list"

record response =
  rs_text :: jsstring
  rs_confidence :: real
  rs_algorithm :: jsstring

text \<open>
  \<^verbatim>\<open>xs.sort((a, b) => key(b) - key(a))\<close>: a stable sort, largest key first.
\<close>

definition sort_descending :: "('a \<Rightarrow> real) \<Rightarrow> 'a list \<Rightarrow> 'a list" where
  "sort_descending key xs = sort_key (\<lambda>x. - key x) xs"

text \<open>
  Algorithm 1: the five best TF-IDF measures among the documents whose index is below
  the number of training examples. An exception of the library leaves no candidate.
\<close>

definition tfidf_candidates :: "nlp \<Rightarrow> brain_config \<Rightarrow> brain \<Rightarrow> jsstring \<Rightarrow> candidate list" where
  "tfidf_candidates lib cfg b processedMessage =
     (case tfidfs lib (tfidf_documents b) processedMessage of
        Inl err \<Rightarrow> []
      | Inr scores \<Rightarrow>
          (let tfidfScores = filter (\<lambda>(i, score). i < length (trainingData b))
                               (enumerate 0 scores);
               topTfidf = take 5 (sort_descending snd tfidfScores)
           in map (\<lambda>(i, score).
                     \<lparr>cd_text = t_output (trainingData b ! i),
                      cd_confidence = score * w_tfidf (algorithm_weights cfg),
                      cd_algorithm = lit ''tfidf'',
                      cd_trainingId = t_id (trainingData b ! i)\<rparr>) topTfidf))"

text \<open>
  Algorithm 2. \<open>maxLen\<close> is taken from the input as stored; when it is 0 the
  similarity is \<^verbatim>\<open>NaN\<close>, which is not above the threshold.
\<close>

definition levenshtein_candidates ::
  "platform \<Rightarrow> nlp \<Rightarrow> brain_config \<Rightarrow> brain \<Rightarrow> jsstring \<Rightarrow> candidate list" where
  "levenshtein_candidates js lib cfg b processedMessage =
     concat (map (\<lambda>item.
        (let distance = levenshtein lib processedMessage (preprocessText js (t_input item));
             maxLen = max (length processedMessage) (length (t_input item));
             similarity = 1 - real distance / real maxLen
         in if maxLen \<noteq> 0 \<and> similarity > 0.5
            then [\<lparr>cd_text = t_output item,
                   cd_confidence = similarity * w_levenshtein (algorithm_weights cfg),
                   cd_algorithm = lit ''levenshtein'',
                   cd_trainingId = t_id item\<rparr>]
            else [])) (trainingData b))"

text \<open>Algorithm 3.\<close>

definition jaroWinkler_candidates ::
  "platform \<Rightarrow> nlp \<Rightarrow> brain_config \<Rightarrow> brain \<Rightarrow> jsstring \<Rightarrow> candidate list" where
  "jaroWinkler_candidates js lib cfg b processedMessage =
     concat (map (\<lambda>item.
        (let similarity = jaroWinkler lib processedMessage (preprocessText js (t_input item))
         in if similarity > 0.7
            then [\<lparr>cd_text = t_output item,
                   cd_confidence = similarity * w_jaroWinkler (algorithm_weights cfg),
                   cd_algorithm = lit ''jarowinkler'',
                   cd_trainingId = t_id item\<rparr>]
            else [])) (trainingData b))"

text \<open>
  Algorithm 4, the boost of the conversation context: \<open>intent\<close> is the intent
  detected for the message that is being answered.
\<close>

definition recentIntents :: "context_entry list \<Rightarrow> jsstring list" where
  "recentIntents ctx = map ce_intent (drop (length ctx - 3) ctx)"

definition context_boost ::
  "brain_config \<Rightarrow> brain \<Rightarrow> jsvalue option \<Rightarrow> jsstring \<Rightarrow> candidate list \<Rightarrow> candidate list" where
  "context_boost cfg b ph intent candidates =
     (case ph of
        None \<Rightarrow> candidates
      | Some p \<Rightarrow>
          (let ctx = getConversationContext b p
           in if length ctx > 0 then
                map (\<lambda>c. if intent \<in> set (recentIntents ctx)
                          then c\<lparr>cd_confidence := cd_confidence c
                                                     + w_context (algorithm_weights cfg)\<rparr>
                          else c) candidates
              else candidates))"

text \<open>
  Grouping by text. \<^verbatim>\<open>grouped\<close> is a plain object: for a text that names a
  member of \<^verbatim>\<open>Object.prototype\<close> the read \<^verbatim>\<open>grouped[candidate.text]\<close> is that
  member, no group is made, and \<^verbatim>\<open>.algorithms.push\<close> throws.
\<close>

fun group_candidates ::
  "candidate list \<Rightarrow> (jsstring \<times> response_group) list
   \<Rightarrow> js_error + (jsstring \<times> response_group) list" where
  "group_candidates [] grouped = Inr grouped"
| "group_candidates (c # cs) grouped =
     (case js_get grouped (cd_text c) of
        Inherited \<Rightarrow> Inl (cannot_read ''push'')
      | Absent \<Rightarrow>
          group_candidates cs
            (js_set grouped (cd_text c)
               \<lparr>g_text = cd_text c, g_confidence = 0 + cd_confidence c,
                g_algorithms = [cd_algorithm c]\<rparr>)
      | Own g \<Rightarrow>
          group_candidates cs
            (js_set grouped (cd_text c)
               (g\<lparr>g_confidence := g_confidence g + cd_confidence c,
                  g_algorithms := g_algorithms g @ [cd_algorithm c]\<rparr>)))"

text \<open>
  \<^verbatim>\<open>Object.values\<close>: the keys that are array indices first, by their number, then
  the other keys in the order of their creation.
\<close>

definition is_array_index :: "jsstring \<Rightarrow> bool" where
  "is_array_index k =
     (k \<noteq> [] \<and> list_all isDigit k \<and> (hd k \<noteq> 48 \<or> length k = 1)
      \<and> fold (\<lambda>c n. 10 * n + (c - 48)) k 0 < 4294967295)"

definition index_of_key :: "jsstring \<Rightarrow> nat" where
  "index_of_key k = fold (\<lambda>c n. 10 * n + (c - 48)) k 0"

definition object_values :: "(jsstring \<times> 'a) list \<Rightarrow> 'a list" where
  "object_values obj =
     map snd (sort_key (\<lambda>(k, v). index_of_key k) (filter (\<lambda>(k, v). is_array_index k) obj)
              @ filter (\<lambda>(k, v). \<not> is_array_index k) obj)"

text \<open>The fusion: from the candidates to the best group.\<close>

definition select_best :: "candidate list \<Rightarrow> js_error + response_group" where
  "select_best candidates =
     (case group_candidates candidates [] of
        Inl err \<Rightarrow> Inl err
      | Inr grouped \<Rightarrow>
          (case sort_descending g_confidence (object_values grouped) of
             [] \<Rightarrow> Inl (cannot_read ''confidence'')
           | best # others \<Rightarrow> Inr (best\<lparr>g_confidence := min (g_confidence best) 1.0\<rparr>)))"

definition findBestResponse ::
  "platform \<Rightarrow> nlp \<Rightarrow> brain_config \<Rightarrow> brain \<Rightarrow> jsstring \<Rightarrow> user_context \<Rightarrow> jsstring
   \<Rightarrow> (js_error + response) \<times> brain" where
  "findBestResponse js lib cfg b processedMessage uctx intent =
     (if trainingData b = [] then
        (Inr \<lparr>rs_text = lit ''Ainda estou aprendendo. Em breve poderei ajudar melhor!'',
              rs_confidence = 0.3, rs_algorithm = lit ''fallback''\<rparr>, b)
      else
        (let candidates =
               context_boost cfg b (phone_of js uctx) intent
                 (tfidf_candidates lib cfg b processedMessage
                  @ levenshtein_candidates js lib cfg b processedMessage
                  @ jaroWinkler_candidates js lib cfg b processedMessage)
         in if candidates = [] then
              (Inr \<lparr>rs_text = lit ''N'' @ [227]
                              @ lit ''o tenho certeza sobre isso. Voc'' @ [234]
                              @ lit '' pode reformular sua pergunta?'',
                    rs_confidence = 0.2, rs_algorithm = lit ''none''\<rparr>, b)
            else
              (case select_best candidates of
                 Inl err \<Rightarrow> (Inl err, b)
               | Inr best \<Rightarrow>
                   (Inr \<lparr>rs_text = g_text best, rs_confidence = g_confidence best,
                         rs_algorithm = join_with (lit ''+'') (g_algorithms best)\<rparr>,
                    if g_confidence best \<ge> minConfidence cfg
                    then b\<lparr>db := updateTrainingUsage (db b) (cd_trainingId (hd candidates))\<rparr>
                    else b))))"

section \<open>The matching engine: processing a message\<close>

definition updateStats :: "brain \<Rightarrow> ai_result \<Rightarrow> brain" where
  "updateStats b result =
     (let n = Suc (totalProcessed (stats b))
      in b\<lparr>stats := (stats b)\<lparr>totalProcessed := n,
                                averageConfidence :=
                                  (averageConfidence (stats b) * real (n - 1)
                                   + a_confidence result) / real n\<rparr>\<rparr>)"

definition msg_ai_error :: jsstring where
  "msg_ai_error =
     lit ''Desculpe, tive um problema ao processar sua mensagem. Nossa equipe foi notificada.''"

definition getErrorResponse :: "js_error \<Rightarrow> ai_result" where
  "getErrorResponse err =
     \<lparr>a_response = msg_ai_error, a_confidence = 0,
      a_sentiment = \<lparr>sn_score = 0, sn_comparative = 0, sn_label = lit ''neutral'',
                     sn_emotions = [], sn_positive = [], sn_negative = []\<rparr>,
      a_intent = lit ''error'', a_entities = [], a_keywords = [],
      a_needsHumanHandoff = True, a_processingTime = None, a_algorithm = None,
      a_error = Some (error_message err)\<rparr>"

text \<open>
  The part of \<^verbatim>\<open>processMessage\<close> after a cache miss. \<open>uctx\<close> is the
  \<^verbatim>\<open>userContext\<close> of the caller, \<open>None\<close> when it is \<^verbatim>\<open>null\<close>. The clock
  reads \<open>now\<close> throughout the call.
\<close>

definition answer_message ::
  "platform \<Rightarrow> nlp \<Rightarrow> brain_config \<Rightarrow> int \<Rightarrow> brain \<Rightarrow> jsstring \<Rightarrow> user_context option
   \<Rightarrow> (js_error + ai_result) \<times> brain" where
  "answer_message js lib cfg now b cleanMessage uctx =
     (let processedMessage = preprocessText js cleanMessage
      in case analyzeSentiment lib cleanMessage of
           Inl err \<Rightarrow> (Inl err, b)
         | Inr sentimentResult \<Rightarrow>
             (let entities = entities_of lib cleanMessage;
                  intent = detectIntent lib b processedMessage
              in case keywords_of lib processedMessage of
                   Inl err \<Rightarrow> (Inl err, b)
                 | Inr keywords \<Rightarrow>
                     (case uctx of
                        None \<Rightarrow>
                          (Inl (TypeError (lit ''Cannot read properties of null (reading ''
                                           @ [39] @ lit ''phone'' @ [39] @ lit '')'')), b)
                      | Some userContext \<Rightarrow>
                          (let b1 = updateConversationContext cfg b (phone_of js userContext)
                                      \<lparr>ce_message = cleanMessage, ce_intent = intent,
                                       ce_sentiment = sn_label sentimentResult,
                                       ce_timestamp = now\<rparr>
                           in case findBestResponse js lib cfg b1 processedMessage userContext intent of
                                (Inl err, b2) \<Rightarrow> (Inl err, b2)
                              | (Inr response, b2) \<Rightarrow>
                                  (let result =
                                         \<lparr>a_response = rs_text response,
                                          a_confidence = rs_confidence response,
                                          a_sentiment = sentimentResult,
                                          a_intent = intent,
                                          a_entities = entities,
                                          a_keywords = keywords,
                                          a_needsHumanHandoff =
                                            (rs_confidence response < minConfidence cfg),
                                          a_processingTime = Some 0,
                                          a_algorithm = Some (rs_algorithm response),
                                          a_error = None\<rparr>;
                                       b3 = (if cacheEnabled cfg \<and> rs_confidence response \<ge> 0.8
                                             then cacheResponse cfg now b2 cleanMessage result
                                             else b2);
                                       b4 = updateStats b3 result;
                                       b5 = (if learningEnabled cfg \<and> rs_confidence response \<ge> 0.85
                                             then learnFromInteraction js cfg b4 cleanMessage
                                                    (rs_text response) (rs_confidence response)
                                             else b4)
                                   in (Inr result, b5))))))"

text \<open>The body of the \<^verbatim>\<open>try\<close> of \<^verbatim>\<open>AdvancedAIBrain.processMessage\<close>.\<close>

definition ai_processMessage_try ::
  "platform \<Rightarrow> nlp \<Rightarrow> brain_config \<Rightarrow> int \<Rightarrow> brain \<Rightarrow> js_input \<Rightarrow> user_context option
   \<Rightarrow> (js_error + ai_result) \<times> brain" where
  "ai_processMessage_try js lib cfg now b message uctx =
     (let cleanMessage = sanitizeInput message
      in if cleanMessage = [] then
           (Inl (Error (lit ''Empty message after sanitization'')), b)
         else if cacheEnabled cfg then
           (case getCachedResponse cfg now b cleanMessage of
              (Some cached, b1) \<Rightarrow>
                (Inr cached, b1\<lparr>stats := (stats b1)\<lparr>cacheHits := Suc (cacheHits (stats b1))\<rparr>\<rparr>)
            | (None, b1) \<Rightarrow> answer_message js lib cfg now b1 cleanMessage uctx)
         else answer_message js lib cfg now b cleanMessage uctx)"

text \<open>
  \<^verbatim>\<open>AdvancedAIBrain.processMessage\<close>: what the \<^verbatim>\<open>try\<close> throws is answered
  with \<^verbatim>\<open>getErrorResponse\<close>.
\<close>

definition ai_processMessage ::
  "platform \<Rightarrow> nlp \<Rightarrow> brain_config \<Rightarrow> int \<Rightarrow> brain \<Rightarrow> js_input \<Rightarrow> user_context option
   \<Rightarrow> ai_result \<times> brain" where
  "ai_processMessage js lib cfg now b message uctx =
     (case ai_processMessage_try js lib cfg now b message uctx of
        (Inl err, b1) \<Rightarrow> (getErrorResponse err, b1)
      | (Inr result, b1) \<Rightarrow> (result, b1))"

section \<open>The first matching engine: learning\<close>

text \<open>
  What \<^verbatim>\<open>AIBrain.findBestResponse\<close> returns and caches: a text and a
  confidence, with the id of the training example when it comes from one.
\<close>

record response_v1 =
  vr_text :: jsstring
  vr_confidence :: real
  vr_trainingId :: "nat option"

text \<open>
  The state of the class \<^verbatim>\<open>AIBrain\<close>. Its \<^verbatim>\<open>minConfidence\<close> is 0.7 and its
  \<^verbatim>\<open>maxContextSize\<close> is 10; nothing assigns them after the constructor.
\<close>

record brain_v1 =
  v1_trainingData :: "training_row list"
  v1_tfidf_documents :: "jsstring list"
  v1_learningEnabled :: bool
  v1_db :: database
  v1_responseCache :: "(jsstring \<times> response_v1) list"
  v1_contextWindow :: "(jsstring \<times> int) list"

text \<open>
  \<^verbatim>\<open>calculateSimilarity\<close>; \<open>None\<close> is \<^verbatim>\<open>NaN\<close>, the value of a division of 0
  by 0.
\<close>

definition calculateSimilarity :: "nlp \<Rightarrow> jsstring \<Rightarrow> jsstring \<Rightarrow> real option" where
  "calculateSimilarity lib text1 text2 =
     (let tokens1 = remdups (tokenize lib text1);
          tokens2 = remdups (tokenize lib text2);
          intersection = filter (\<lambda>x. x \<in> set tokens2) tokens1;
          union = remdups (tokens1 @ tokens2);
          maxLen = max (length text1) (length text2);
          levDist = levenshtein lib text1 text2
      in if union = [] \<or> maxLen = 0 then None
         else Some (real (length intersection) / real (length union) * 0.6
                    + (1 - real levDist / real maxLen) * 0.4))"

definition v1_loadTrainingData :: "brain_v1 \<Rightarrow> brain_v1" where
  "v1_loadTrainingData b =
     (let rows = getTrainingData (v1_db b)
      in b\<lparr>v1_trainingData := rows,
            v1_tfidf_documents := v1_tfidf_documents b @ map t_input rows\<rparr>)"

text \<open>
  \<^verbatim>\<open>AIBrain.learn\<close>, on strings. The third argument of its call of
  \<^verbatim>\<open>saveTrainingData\<close>, which that function stores as the confidence, is
  \<^verbatim>\<open>approved ? 1 : 0\<close>.
\<close>

definition v1_learn :: "platform \<Rightarrow> nlp \<Rightarrow> brain_v1 \<Rightarrow> jsstring \<Rightarrow> jsstring \<Rightarrow> bool \<Rightarrow> bool \<times> brain_v1" where
  "v1_learn js lib b inp out approved =
     (if \<not> v1_learningEnabled b then (False, b)
      else
        (let cleanInput = preprocessText js inp;
             cleanOutput = trim out
         in case find (\<lambda>item. case calculateSimilarity lib cleanInput (t_input item) of
                                 None \<Rightarrow> False
                               | Some similarity \<Rightarrow> similarity > 0.9)
                   (v1_trainingData b) of
              Some existing \<Rightarrow> (False, b)
            | None \<Rightarrow>
                (True,
                 v1_loadTrainingData
                   (b\<lparr>v1_db := saveTrainingData (v1_db b) cleanInput cleanOutput
                                   (if approved then 1 else 0)\<rparr>))))"

section \<open>The first matching engine: processing a message\<close>

text \<open>
  \<^verbatim>\<open>/\b(a|b|...)\b/i\<close> for words that begin and end with a letter: one of the
  words, with no word character before it and none after it.
\<close>

definition contains_word :: "jsstring list \<Rightarrow> jsstring \<Rightarrow> bool" where
  "contains_word ws text =
     test_whole
       (Cat (Alt Eps (Cat (Star any_unit) (Cls (\<lambda>c. \<not> isWordChar c))))
          (Cat (rx_alts (map rx_ilit ws))
             (Alt Eps (Cat (Cls (\<lambda>c. \<not> isWordChar c)) (Star any_unit)))))
       text"

text \<open>The table of \<^verbatim>\<open>AIBrain.detectIntent\<close>, in the order of its keys.\<close>

definition v1_intents :: "(jsstring \<times> jsstring list) list" where
  "v1_intents =
     [(lit ''greeting'', map lit [''oi'', ''ola'', ''bom dia'', ''boa tarde'', ''boa noite'',
                                   ''hey'', ''e ai'']),
      (lit ''farewell'', map lit [''tchau'', ''ate logo'', ''ate mais'', ''falou'', ''obrigado'',
                                   ''valeu'', ''ate'']),
      (lit ''question'', map lit [''como'', ''quando'', ''onde'', ''porque'', ''qual'', ''quanto'',
                                   ''quem'', ''o que'']),
      (lit ''complaint'', map lit [''problema'', ''erro'', ''nao funciona'', ''ruim'', ''pessimo'',
                                    ''horrivel'', ''reclamar'']),
      (lit ''praise'', map lit [''otimo'', ''excelente'', ''perfeito'', ''muito bom'', ''parabens'',
                                 ''top'', ''show'']),
      (lit ''help'', map lit [''ajuda'', ''socorro'', ''help'', ''auxilio'', ''preciso'']),
      (lit ''purchase'', map lit [''comprar'', ''preco'', ''valor'', ''quanto custa'',
                                   ''orcamento'', ''pagar'']),
      (lit ''support'', map lit [''suporte'', ''tecnico'', ''assistencia'', ''manutencao''])]"

definition v1_detectIntent :: "jsstring \<Rightarrow> jsstring" where
  "v1_detectIntent message =
     (case find (\<lambda>(intent, ws). contains_word ws message) v1_intents of
        Some (intent, ws) \<Rightarrow> intent
      | None \<Rightarrow> lit ''unknown'')"

text \<open>
  \<^verbatim>\<open>getDefaultResponseByIntent\<close>. The table is an object literal, built at every
  call, and its first entry reads \<^verbatim>\<open>userContext.name\<close>, which throws when the
  context is \<^verbatim>\<open>null\<close>. \<open>Foreign\<close> is what the lookup gives for an intent that
  names a member of \<^verbatim>\<open>Object.prototype\<close>: a value that is no response.
\<close>

datatype found_v1 = Found response_v1 | Foreign

definition unknownResponse :: response_v1 where
  "unknownResponse =
     \<lparr>vr_text = lit ''Desculpe, n'' @ [227] @ lit ''o entendi muito bem. Pode reformular sua ''
                @ lit ''pergunta?'',
      vr_confidence = 0.3, vr_trainingId = None\<rparr>"

definition defaultResponses :: "jsstring \<Rightarrow> (jsstring \<times> response_v1) list" where
  "defaultResponses greeting_name =
     map (\<lambda>(k, t, c). (k, \<lparr>vr_text = t, vr_confidence = c, vr_trainingId = None\<rparr>))
       [(lit ''greeting'',
         lit ''Ol'' @ [225] @ greeting_name @ lit ''! Como posso ajudar voc'' @ [234]
         @ lit '' hoje?'', 0.9),
        (lit ''farewell'',
         lit ''At'' @ [233] @ lit '' logo! Se precisar de algo, estou por aqui! ''
         @ [55357, 56842], 0.9),
        (lit ''question'',
         lit ''Essa '' @ [233] @ lit '' uma '' @ [243] @ lit ''tima pergunta! Vou verificar ''
         @ lit ''isso para voc'' @ [234] @ lit ''.'', 0.5),
        (lit ''complaint'',
         lit ''Sinto muito pelo problema! Vou encaminhar para nossa equipe resolver isso ''
         @ lit ''urgentemente.'', 0.6),
        (lit ''praise'',
         lit ''Muito obrigado pelo feedback! Ficamos felizes em ajudar! '' @ [55357, 56911],
         0.9),
        (lit ''help'',
         lit ''Claro! Estou aqui para ajudar. O que voc'' @ [234] @ lit '' precisa?'', 0.8),
        (lit ''purchase'',
         lit ''Vou te conectar com nosso time de vendas para te passar as melhores ''
         @ lit ''condi'' @ [231, 245] @ lit ''es!'', 0.7),
        (lit ''support'',
         lit ''Vou te transferir para nosso suporte t'' @ [233] @ lit ''cnico. Eles v''
         @ [227] @ lit ''o resolver isso rapidinho!'', 0.7)]
     @ [(lit ''unknown'', unknownResponse)]"

definition getDefaultResponseByIntent ::
  "platform \<Rightarrow> jsstring \<Rightarrow> user_context option \<Rightarrow> js_error + found_v1" where
  "getDefaultResponseByIntent js intent uctx =
     (case uctx of
        None \<Rightarrow>
          Inl (TypeError (lit ''Cannot read properties of null (reading '' @ [39]
                          @ lit ''name'' @ [39] @ lit '')''))
      | Some userContext \<Rightarrow>
          (let greeting_name =
                 (case js_get userContext (lit ''name'') of
                    Own v \<Rightarrow> if truthy js v then [32] @ value_text js v else []
                  | Inherited \<Rightarrow> [32] @ inherited_text (lit ''name'')
                  | Absent \<Rightarrow> [])
           in case js_get (defaultResponses greeting_name) intent of
                Own r \<Rightarrow> Inr (Found r)
              | Inherited \<Rightarrow> Inr Foreign
              | Absent \<Rightarrow> Inr (Found unknownResponse)))"

text \<open>\<^verbatim>\<open>findSimilarResponses\<close>: the examples whose similarity is above 0.3.\<close>

definition findSimilarResponses :: "nlp \<Rightarrow> brain_v1 \<Rightarrow> jsstring \<Rightarrow> similar_response list" where
  "findSimilarResponses lib b message =
     sort_similar lib
       (concat (map (\<lambda>item.
          (case calculateSimilarity lib message (t_input item) of
             None \<Rightarrow> []
           | Some similarity \<Rightarrow>
               if similarity > 0.3
               then [\<lparr>sr_id = t_id item, sr_input = t_input item, sr_output = t_output item,
                      sr_confidence = similarity, sr_usageCount = t_usage_count item\<rparr>]
               else [])) (v1_trainingData b)))"

text \<open>
  \<^verbatim>\<open>AIBrain.findBestResponse\<close>. The key of the cache is the sanitized message,
  an underscore and the intent; an entry has no time, and nothing removes it.
\<close>

definition v1_cacheKey :: "jsstring \<Rightarrow> jsstring \<Rightarrow> jsstring" where
  "v1_cacheKey message intent = message @ [95] @ intent"

definition v1_findBestResponse ::
  "platform \<Rightarrow> nlp \<Rightarrow> brain_v1 \<Rightarrow> jsstring \<Rightarrow> user_context option \<Rightarrow> jsstring
   \<Rightarrow> (js_error + found_v1) \<times> brain_v1" where
  "v1_findBestResponse js lib b message uctx intent =
     (case map_get (v1_responseCache b) (v1_cacheKey message intent) of
        Some cached \<Rightarrow> (Inr (Found cached), b)
      | None \<Rightarrow>
          (let matches = findSimilarResponses lib b message
           in if matches \<noteq> [] \<and> sr_confidence (hd matches) \<ge> 0.7 then
                (let bestMatch = hd matches;
                     response = \<lparr>vr_text = sr_output bestMatch,
                                 vr_confidence = sr_confidence bestMatch,
                                 vr_trainingId = Some (sr_id bestMatch)\<rparr>
                 in (Inr (Found response),
                     b\<lparr>v1_db := updateTrainingUsage (v1_db b) (sr_id bestMatch),
                       v1_responseCache :=
                         map_set (v1_responseCache b) (v1_cacheKey message intent) response\<rparr>))
              else (getDefaultResponseByIntent js intent uctx, b)))"

text \<open>\<^verbatim>\<open>addToContext\<close>, with the clock at \<open>now\<close>.\<close>

definition addToContext :: "brain_v1 \<Rightarrow> jsstring \<Rightarrow> int \<Rightarrow> brain_v1" where
  "addToContext b message now =
     (let pushed = v1_contextWindow b @ [(message, now)]
      in b\<lparr>v1_contextWindow := (if length pushed > 10 then tl pushed else pushed)\<rparr>)"

text \<open>
  The result object of \<^verbatim>\<open>AIBrain.processMessage\<close>. The response and the
  confidence of a value that is no response are \<^verbatim>\<open>undefined\<close>, here \<open>None\<close>,
  and \<^verbatim>\<open>undefined < 0.7\<close> is false.
\<close>

record sentiment_v1 =
  sv_score :: int
  sv_comparative :: real
  sv_classification :: "jsstring option"
  sv_tokens :: "jsstring list option"

record result_v1 =
  v_response :: "jsstring option"
  v_confidence :: "real option"
  v_sentiment :: sentiment_v1
  v_intent :: jsstring
  v_entities :: "(jsstring \<times> jsstring list) list"
  v_needsHumanHandoff :: bool

definition v1_analyzeSentiment :: "nlp \<Rightarrow> jsstring \<Rightarrow> js_error + sentiment_v1" where
  "v1_analyzeSentiment lib text =
     (case sentiment_analyze lib text of
        Inl err \<Rightarrow> Inl err
      | Inr (score, comparative, pos, neg) \<Rightarrow>
          Inr \<lparr>sv_score = score, sv_comparative = comparative,
               sv_classification =
                 Some (if comparative > 0.2 then lit ''positive''
                       else if comparative < - 0.2 then lit ''negative''
                       else lit ''neutral''),
               sv_tokens = Some (sentiment_tokens lib text)\<rparr>)"

definition v1_errorResult :: result_v1 where
  "v1_errorResult =
     \<lparr>v_response = Some (lit ''Desculpe, tive um problema ao processar sua mensagem. ''
                          @ lit ''Pode tentar novamente?''),
      v_confidence = Some 0,
      v_sentiment = \<lparr>sv_score = 0, sv_comparative = 0, sv_classification = None,
                     sv_tokens = None\<rparr>,
      v_intent = lit ''unknown'', v_entities = [], v_needsHumanHandoff = True\<rparr>"

text \<open>
  The body of the \<^verbatim>\<open>try\<close> of \<^verbatim>\<open>AIBrain.processMessage\<close>. A message that is
  no string has no \<^verbatim>\<open>toLowerCase\<close>.
\<close>

definition v1_processMessage_try ::
  "platform \<Rightarrow> nlp \<Rightarrow> int \<Rightarrow> brain_v1 \<Rightarrow> js_input \<Rightarrow> user_context option
   \<Rightarrow> (js_error + result_v1) \<times> brain_v1" where
  "v1_processMessage_try js lib now b message uctx =
     (case message of
        JOther \<Rightarrow> (Inl (TypeError (lit ''text.toLowerCase is not a function'')), b)
      | JString m \<Rightarrow>
          (let cleanMessage = preprocessText js m;
               b1 = addToContext b cleanMessage now
           in case v1_analyzeSentiment lib cleanMessage of
                Inl err \<Rightarrow> (Inl err, b1)
              | Inr sentimentResult \<Rightarrow>
                  (case entities_v1 lib cleanMessage of
                     Inl err \<Rightarrow> (Inl err, b1)
                   | Inr entities \<Rightarrow>
                       (let intent = v1_detectIntent cleanMessage
                        in case v1_findBestResponse js lib b1 cleanMessage uctx intent of
                             (Inl err, b2) \<Rightarrow> (Inl err, b2)
                           | (Inr found, b2) \<Rightarrow>
                               (Inr \<lparr>v_response =
                                       (case found of Found r \<Rightarrow> Some (vr_text r)
                                                    | Foreign \<Rightarrow> None),
                                     v_confidence =
                                       (case found of Found r \<Rightarrow> Some (vr_confidence r)
                                                    | Foreign \<Rightarrow> None),
                                     v_sentiment = sentimentResult,
                                     v_intent = intent,
                                     v_entities = entities,
                                     v_needsHumanHandoff =
                                       (case found of Found r \<Rightarrow> vr_confidence r < 0.7
                                                    | Foreign \<Rightarrow> False)\<rparr>,
                                b2)))))"

definition v1_processMessage ::
  "platform \<Rightarrow> nlp \<Rightarrow> int \<Rightarrow> brain_v1 \<Rightarrow> js_input \<Rightarrow> user_context option
   \<Rightarrow> result_v1 \<times> brain_v1" where
  "v1_processMessage js lib now b message uctx =
     (case v1_processMessage_try js lib now b message uctx of
        (Inl err, b1) \<Rightarrow> (v1_errorResult, b1)
      | (Inr result, b1) \<Rightarrow> (result, b1))"

section \<open>The fusion, in the words of the specification\<close>

text \<open>
  The specification's account of the fusion, to be compared with
  \<^verbatim>\<open>findBestResponse\<close>: the aggregate of a text is the sum of the confidences of
  the candidates that have this text, and the group of a text has this aggregate and
  the algorithms of these candidates.
\<close>

definition group_total :: "candidate list \<Rightarrow> jsstring \<Rightarrow> real" where
  "group_total candidates t =
     sum_list (map cd_confidence (filter (\<lambda>c. cd_text c = t) candidates))"

definition group_of :: "candidate list \<Rightarrow> jsstring \<Rightarrow> response_group" where
  "group_of candidates t =
     \<lparr>g_text = t, g_confidence = group_total candidates t,
      g_algorithms = map cd_algorithm (filter (\<lambda>c. cd_text c = t) candidates)\<rparr>"

section \<open>Example collaborators and states of the matching engine\<close>

text \<open>
  A stand-in for the libraries that knows exact matches only: a document or a string
  that equals the query scores 1 (\<open>x\<close> for the Jaro-Winkler similarity), and any
  other scores 0.
\<close>

definition example_nlp :: "real \<Rightarrow> nlp" where
  "example_nlp x =
     \<lparr>sentiment_analyze = (\<lambda>text. Inr (0, 0, [], [])),
      sentiment_tokens = split_on 32,
      entities_of = (\<lambda>text. []),
      entities_v1 = (\<lambda>text. Inr []),
      keywords_of = (\<lambda>text. Inr []),
      tfidfs = (\<lambda>docs query. Inr (map (\<lambda>d. if d = query then 1 else 0) docs)),
      levenshtein = (\<lambda>s t. if s = t then 0 else max (length s) (length t)),
      jaroWinkler = (\<lambda>s t. if s = t then x else 0),
      bayes_classify = (\<lambda>docs text. ClassifyThrows),
      tokenize = split_on 32,
      sort_similar = (\<lambda>xs. xs)\<rparr>"

definition example_row :: "nat \<Rightarrow> string \<Rightarrow> string \<Rightarrow> training_row" where
  "example_row i inp out =
     \<lparr>t_id = i, t_input = lit inp, t_output = lit out, t_confidence = 1,
      t_usage_count = 0, t_approved = 1\<rparr>"

definition no_stats :: brain_stats where
  "no_stats = \<lparr>totalProcessed = 0, cacheHits = 0, averageConfidence = 0\<rparr>"

text \<open>The engine once it has loaded the rows \<open>rows\<close> of the table.\<close>

definition example_brain :: "training_row list \<Rightarrow> brain" where
  "example_brain rows =
     loadTrainingData latin1
       \<lparr>trainingData = [], tfidf_documents = [], bayes_documents = [],
        conversationContext = [], responseCache = [], stats = no_stats, db = rows\<rparr>"

definition example_brain_v1 :: brain_v1 where
  "example_brain_v1 =
     \<lparr>v1_trainingData = [], v1_tfidf_documents = [], v1_learningEnabled = True, v1_db = [],
      v1_responseCache = [], v1_contextWindow = []\<rparr>"

definition example_candidate :: "string \<Rightarrow> real \<Rightarrow> string \<Rightarrow> candidate" where
  "example_candidate t c a =
     \<lparr>cd_text = lit t, cd_confidence = c, cd_algorithm = lit a, cd_trainingId = 1\<rparr>"


text \<open>
  An engine with one approved example, \<^verbatim>\<open>oi\<close> with the reply \<open>out\<close>; and a
  caller that gives no phone number.
\<close>

definition example_oi_row :: "string \<Rightarrow> training_row" where
  "example_oi_row out = example_row 1 ''oi'' out"

definition example_oi_brain :: "string \<Rightarrow> brain" where
  "example_oi_brain out = example_brain [example_oi_row out]"

definition anonymous :: "user_context option" where
  "anonymous = Some []"





text \<open>Three candidates: two algorithms propose one reply, the third another.\<close>

definition example_candidates :: "candidate list" where
  "example_candidates =
     [example_candidate ''Ola!'' 0.30 ''tfidf'',
      example_candidate ''Tchau!'' 0.20 ''jarowinkler'',
      example_candidate ''Ola!'' 0.25 ''levenshtein'']"

text \<open>
  The first engine over a table in which the example \<^verbatim>\<open>oi\<close> is approved, which
  \<^verbatim>\<open>learn\<close> does not do.
\<close>

definition example_brain_v1_approved :: brain_v1 where
  "example_brain_v1_approved =
     v1_loadTrainingData (example_brain_v1\<lparr>v1_db := [example_oi_row ''X'']\<rparr>)"
section \<open>Properties of the flow engine\<close>

lemma lit_eq_iff [simp]: "lit a = lit b \<longleftrightarrow> a = b"
  by (simp add: lit_def inj_on_def)

lemma lit_eq_Nil [simp]: "lit a = [] \<longleftrightarrow> a = []" "[] = lit a \<longleftrightarrow> a = []"
  by (auto simp: lit_def)

lemma latin1_fields:
  "toLowerCase latin1 = map lowerUnit"
  "normalizeNFD latin1 = (\<lambda>s. concat (map nfd_unit s))"
  "numberToString latin1 = (\<lambda>n. n)"
  by (simp_all add: latin1_def)

lemma processMessage_at_step:
  assumes "at_step cfg e ph us st"
  shows "processMessage_try js cfg ai now e ph message uctx =
     (let us1 = visited us st message now; e1 = put_state e ph us1
      in if s_type st = lit ''message'' then handleMessageStep js cfg e1 ph st us1 uctx
         else if s_type st = lit ''menu'' then handleMenuStep js cfg now e1 ph message st us1 uctx
         else if s_type st = lit ''capture_data'' then
           handleCaptureDataStep js cfg e1 ph message st us1 uctx
         else if s_type st = lit ''quick_reply'' then
           handleQuickReplyStep js cfg e1 ph message st us1 uctx
         else if s_type st = lit ''ai_response'' then
           handleAIResponseStep cfg ai e1 ph message st us1 uctx
         else if s_type st = lit ''action'' then handleActionStep js cfg e1 ph st us1 uctx
         else if s_type st = lit ''condition'' then handleConditionStep js cfg e1 ph st us1 uctx
         else (Inr (no_result\<lparr>r_message := Some (lit ''Erro no fluxo.''), r_error := True\<rparr>),
               e1, uctx))"
proof -
  from assms obtain fl where fl: "userStates e ph = Some us" "present (currentFlow us)"
      "js_get (flows cfg) (key_of (currentFlow us)) = Own fl"
      "currentStep us < length (steps fl)" "steps fl ! currentStep us = st"
    by (auto simp: at_step_def split: lookup.splits)
  show ?thesis
    unfolding processMessage_try_def getUserState_def processStep_def visited_def
    by (simp add: fl Let_def)
qed

text \<open>
  Claim C2, as amended. For a step whose type is none of the seven known ones, and for
  an action step whose action is none of the four known ones,
  \<^verbatim>\<open>processMessage\<close> returns a bare error: the error flag, the text
  \<^verbatim>\<open>Erro no fluxo.\<close> (for an unknown action the text of
  \<open>msg_action_unknown\<close>), and no action. The state of the user is kept, with the
  message in its history.
\<close>

theorem unknown_bare_error:
  assumes "at_step cfg e ph us st"
    and "s_type st \<notin> set known_step_types
         \<or> (s_type st = lit ''action'' \<and> (\<forall>a \<in> set known_actions. s_action st \<noteq> Some a))"
  shows "processMessage js cfg ai now e ph message uctx =
     (no_result\<lparr>r_message := Some (if s_type st = lit ''action'' then msg_action_unknown
                                     else lit ''Erro no fluxo.''),
                r_error := True\<rparr>,
      put_state e ph (visited us st message now), uctx)
    \<and> r_action (fst (processMessage js cfg ai now e ph message uctx)) = None"
proof -
  from assms(2) have "processMessage_try js cfg ai now e ph message uctx =
     (Inr (no_result\<lparr>r_message := Some (if s_type st = lit ''action'' then msg_action_unknown
                                     else lit ''Erro no fluxo.''),
                r_error := True\<rparr>),
      put_state e ph (visited us st message now), uctx)"
    unfolding processMessage_at_step [OF assms(1)]
    by (auto simp: known_step_types_def known_actions_def handleActionStep_def Let_def)
  then show ?thesis
    by (simp add: processMessage_def no_result_def)
qed

lemma reset_put [simp]: "resetUserFlow (put_state e ph us) ph = resetUserFlow e ph"
  by (simp add: resetUserFlow_def put_state_def)

lemma put_put [simp]: "put_state (put_state e ph us) ph us' = put_state e ph us'"
  by (simp add: put_state_def)

lemma userStates_put [simp]: "userStates (put_state e ph us) ph = Some us"
  by (simp add: put_state_def)

lemma userStates_reset [simp]: "userStates (resetUserFlow e ph) ph = None"
  by (simp add: resetUserFlow_def)




text \<open>
  For a name that is neither a validator nor a member of \<^verbatim>\<open>Object.prototype\<close>
  the input is accepted as it is.
\<close>

lemma validateInput_unknown_name:
  assumes "key_of t \<notin> fst ` set (setupValidators js)" and "key_of t \<notin> set object_prototype_keys"
  shows "validateInput js v t = Inr (VOk (VStr v))"
proof -
  from assms(1) have "map_of (setupValidators js) (key_of t) = None"
    using map_of_eq_None_iff [of "setupValidators js" "key_of t"] by blast
  with assms(2) show ?thesis
    by (simp add: validateInput_def js_get_def)
qed

text \<open>
  Claim C9. For a validator name that is neither one of the eight validators nor a
  member of \<^verbatim>\<open>Object.prototype\<close> the input is accepted as it is. At the name
  \<^verbatim>\<open>toString\<close>, which is not one of the eight validators either, it is not:
  \<^verbatim>\<open>this.validators["toString"]\<close> is the inherited
  \<^verbatim>\<open>Object.prototype.toString\<close>, so the branch for an unknown validator is
  not taken and \<^verbatim>\<open>validateInput\<close> returns that function's result, which is
  not \<^verbatim>\<open>{ valid: true, value }\<close>.
\<close>

theorem validateInput_inherited_name:
  "(key_of t \<notin> fst ` set (setupValidators js) \<and> key_of t \<notin> set object_prototype_keys
      \<longrightarrow> validateInput js v t = Inr (VOk (VStr v)))
   \<and> lit ''toString'' \<notin> fst ` set (setupValidators js)
   \<and> validateInput js (lit ''abc'') (Some (lit ''toString'')) = Inr VForeign
   \<and> validateInput js (lit ''abc'') (Some (lit ''toString'')) \<noteq> Inr (VOk (VStr (lit ''abc'')))"
proof (intro conjI impI)
  assume "key_of t \<notin> fst ` set (setupValidators js) \<and> key_of t \<notin> set object_prototype_keys"
  then show "validateInput js v t = Inr (VOk (VStr v))"
    using validateInput_unknown_name by blast
next
  show "lit ''toString'' \<notin> fst ` set (setupValidators js)"
    by (simp add: setupValidators_def)
next
  show "validateInput js (lit ''abc'') (Some (lit ''toString'')) = Inr VForeign"
    by (simp add: validateInput_def js_get_def key_of_def setupValidators_def
        object_prototype_keys_def call_inherited_def)
  then show "validateInput js (lit ''abc'') (Some (lit ''toString'')) \<noteq> Inr (VOk (VStr (lit ''abc'')))"
    by simp
qed

lemma example_at_step:
  "at_step (example_config b st) (example_engine (example_user st r)) (lit ''5511'')
     (example_user st r) st"
  by (simp add: at_step_def example_config_def example_engine_def example_user_def
        js_get_def key_of_def present_def)




text \<open>
  Claim C2 as stated fails: the first message of a sender whose flow starts with a
  step of the type \<^verbatim>\<open>survey\<close>, or with an action step of the action
  \<^verbatim>\<open>send_sms\<close>, gets a result with no action.
\<close>

theorem unknown_bare_error_counterexample:
  "r_action (fst (processMessage latin1 (example_config True example_unknown) no_ai 0 no_users
                    (lit ''5511'') (lit ''oi'') [])) = None
   \<and> r_action (fst (processMessage latin1
                      (example_config True ((example_step ''inicio'' ''action'')
                                              \<lparr>s_action := Some (lit ''send_sms'')\<rparr>))
                      no_ai 0 no_users (lit ''5511'') (lit ''oi'') [])) = None"
  by (simp add: processMessage_def processMessage_try_def getUserState_def no_users_def
        example_config_def initializeUserFlow_def js_get_def key_of_def example_unknown_def
        example_step_def processStep_def Let_def no_result_def handleActionStep_def)

text \<open>
  The theorem of C2 at a step of the unknown type \<^verbatim>\<open>survey\<close>.
\<close>

theorem unknown_bare_error_witness:
  "at_step (example_config True example_unknown) (example_engine (example_user example_unknown 0))
     (lit ''5511'') (example_user example_unknown 0) example_unknown
   \<and> s_type example_unknown \<notin> set known_step_types
   \<and> fst (processMessage latin1 (example_config True example_unknown) no_ai 0
        (example_engine (example_user example_unknown 0)) (lit ''5511'') (lit ''oi'') [])
       = no_result\<lparr>r_message := Some (lit ''Erro no fluxo.''), r_error := True\<rparr>"
proof -
  have k: "s_type example_unknown \<notin> set known_step_types"
    by (simp add: example_unknown_def example_step_def known_step_types_def)
  then have h: "s_type example_unknown \<notin> set known_step_types
         \<or> (s_type example_unknown = lit ''action''
             \<and> (\<forall>a \<in> set known_actions. s_action example_unknown \<noteq> Some a))"
    by simp
  have t: "s_type example_unknown \<noteq> lit ''action''"
    by (simp add: example_unknown_def example_step_def)
  show ?thesis
    using unknown_bare_error [OF example_at_step h, where js = latin1 and ai = no_ai and now = 0
        and message = "lit ''oi''" and uctx = "[]"] example_at_step k t
    by simp
qed




text \<open>
  The theorem of C9 at the validator name \<^verbatim>\<open>date\<close>, which is accepted, beside
  \<^verbatim>\<open>toString\<close>.
\<close>

theorem validateInput_inherited_name_witness:
  "key_of (Some (lit ''date'')) \<notin> fst ` set (setupValidators latin1)
   \<and> key_of (Some (lit ''date'')) \<notin> set object_prototype_keys
   \<and> validateInput latin1 (lit ''abc'') (Some (lit ''date'')) = Inr (VOk (VStr (lit ''abc'')))
   \<and> validateInput latin1 (lit ''abc'') (Some (lit ''toString'')) = Inr VForeign"
proof -
  have h: "key_of (Some (lit ''date'')) \<notin> fst ` set (setupValidators latin1)"
    "key_of (Some (lit ''date'')) \<notin> set object_prototype_keys"
    by (simp_all add: key_of_def setupValidators_def object_prototype_keys_def)
  with validateInput_inherited_name [where t = "Some (lit ''date'')" and v = "lit ''abc''"
      and js = latin1]
  show ?thesis by simp
qed

section \<open>Properties of the matching engine\<close>

subsection \<open>Learning\<close>

lemma v1_learn_similar:
  assumes "v1_learningEnabled b" and "item \<in> set (v1_trainingData b)"
    and "calculateSimilarity lib (preprocessText js inp) (t_input item) = Some s" and "s > 0.9"
  shows "v1_learn js lib b inp out approved = (False, b)"
proof -
  define P :: "training_row \<Rightarrow> bool" where "P = (\<lambda>item. case calculateSimilarity lib (preprocessText js inp) (t_input item) of
                                 None \<Rightarrow> False
                               | Some similarity \<Rightarrow> similarity > 0.9)"
  have "P item"
    using assms(3,4) by (simp add: P_def)
  with assms(2) have "find P (v1_trainingData b) \<noteq> None"
    by (auto simp: find_None_iff)
  then show ?thesis
    using assms(1) by (auto simp: v1_learn_def Let_def P_def [symmetric])
qed

text \<open>
  Claim C3. \<^verbatim>\<open>AIBrain.learn\<close> does reject an input whose similarity to the
  input of a row of \<^verbatim>\<open>trainingData\<close> is above 0.9; but \<^verbatim>\<open>trainingData\<close>
  holds the approved rows, and a row that \<^verbatim>\<open>saveTrainingData\<close> has written is
  not approved. So at \<^verbatim>\<open>learn("oi", "X", true)\<close> followed by
  \<^verbatim>\<open>learn("oi", "Y", true)\<close> on an empty table the first call leaves
  \<^verbatim>\<open>trainingData\<close> empty, and the second call returns \<^verbatim>\<open>true\<close> and adds
  a second row. \<^verbatim>\<open>AdvancedAIBrain.learn\<close> compares nothing: every call returns
  \<^verbatim>\<open>true\<close> and adds a row.
\<close>

theorem learn_twice:
  "fst (learn js b inp out approved)
   \<and> length (db (snd (learn js b inp out approved))) = Suc (length (db b))
   \<and> (case v1_learn js lib example_brain_v1 (lit ''oi'') (lit ''X'') True of
      (r1, b1) \<Rightarrow>
        (case v1_learn js lib b1 (lit ''oi'') (lit ''Y'') True of
           (r2, b2) \<Rightarrow> r1 \<and> r2 \<and> length (v1_db b1) = 1 \<and> length (v1_db b2) = 2
                        \<and> v1_trainingData b1 = []))
   \<and> (case learn js (example_brain []) (lit ''oi'') (lit ''X'') True of
      (r1, b1) \<Rightarrow>
        (case learn js b1 (lit ''oi'') (lit ''Y'') True of
           (r2, b2) \<Rightarrow> r1 \<and> r2 \<and> length (db b1) = 1 \<and> length (db b2) = 2))
   \<and> (v1_learningEnabled b' \<and> item \<in> set (v1_trainingData b')
       \<and> calculateSimilarity lib (preprocessText js inp) (t_input item) = Some s \<and> s > 0.9
      \<longrightarrow> v1_learn js lib b' inp out approved = (False, b'))"
proof (intro conjI impI)
  show "fst (learn js b inp out approved)"
    by (simp add: learn_def Let_def)
  show "length (db (snd (learn js b inp out approved))) = Suc (length (db b))"
    by (simp add: learn_def Let_def saveTrainingData_def loadTrainingData_def trainClassifiers_def)
  show "case v1_learn js lib example_brain_v1 (lit ''oi'') (lit ''X'') True of
      (r1, b1) \<Rightarrow>
        (case v1_learn js lib b1 (lit ''oi'') (lit ''Y'') True of
           (r2, b2) \<Rightarrow> r1 \<and> r2 \<and> length (v1_db b1) = 1 \<and> length (v1_db b2) = 2
                        \<and> v1_trainingData b1 = [])"
    by (simp add: v1_learn_def example_brain_v1_def v1_loadTrainingData_def saveTrainingData_def
          getTrainingData_def Let_def)
  show "case learn js (example_brain []) (lit ''oi'') (lit ''X'') True of
      (r1, b1) \<Rightarrow>
        (case learn js b1 (lit ''oi'') (lit ''Y'') True of
           (r2, b2) \<Rightarrow> r1 \<and> r2 \<and> length (db b1) = 1 \<and> length (db b2) = 2)"
    by (simp add: saveTrainingData_def getTrainingData_def learn_def Let_def loadTrainingData_def
          example_brain_def trainClassifiers_def)
  show "v1_learn js lib b' inp out approved = (False, b')"
    if "v1_learningEnabled b' \<and> item \<in> set (v1_trainingData b')
       \<and> calculateSimilarity lib (preprocessText js inp) (t_input item) = Some s \<and> s > 0.9"
    using that v1_learn_similar by blast
qed

subsection \<open>Intent detection\<close>

lemma some_pattern_iff: "some_pattern ps text \<longleftrightarrow> (\<exists>p \<in> set ps. p text)"
  by (induction ps) auto

lemma first_intent_find:
  "first_intent table text =
     map_option fst (find (\<lambda>(intent, patterns). \<exists>p \<in> set patterns. p text) table)"
  by (induction table) (auto simp: some_pattern_iff)

text \<open>
  Claim C6. The table of \<^verbatim>\<open>initializeIntentPatterns\<close> has the twelve labels in
  the order greeting, farewell, gratitude, question, complaint, praise, help, purchase,
  support, cancel, confirm, deny. \<^verbatim>\<open>detectIntent\<close> returns the label of the
  first entry of the table one of whose patterns matches the text; if no entry matches,
  it returns what the Bayes classifier returns; and if the classifier returns the empty
  string or throws, it returns \<^verbatim>\<open>unknown\<close>.
\<close>

theorem detectIntent_priority:
  "map fst initializeIntentPatterns =
     map lit [''greeting'', ''farewell'', ''gratitude'', ''question'', ''complaint'', ''praise'',
              ''help'', ''purchase'', ''support'', ''cancel'', ''confirm'', ''deny'']
   \<and> detectIntent lib b text =
     (case find (\<lambda>(intent, patterns). \<exists>p \<in> set patterns. p text) initializeIntentPatterns of
        Some (intent, patterns) \<Rightarrow> intent
      | None \<Rightarrow>
          (case bayes_classify lib (bayes_documents b) text of
             Classified c \<Rightarrow> if c \<noteq> [] then c else lit ''unknown''
           | ClassifyThrows \<Rightarrow> lit ''unknown''))"
proof
  show "map fst initializeIntentPatterns =
     map lit [''greeting'', ''farewell'', ''gratitude'', ''question'', ''complaint'', ''praise'',
              ''help'', ''purchase'', ''support'', ''cancel'', ''confirm'', ''deny'']"
    by (simp add: initializeIntentPatterns_def)
next
  show "detectIntent lib b text =
     (case find (\<lambda>(intent, patterns). \<exists>p \<in> set patterns. p text) initializeIntentPatterns of
        Some (intent, patterns) \<Rightarrow> intent
      | None \<Rightarrow>
          (case bayes_classify lib (bayes_documents b) text of
             Classified c \<Rightarrow> if c \<noteq> [] then c else lit ''unknown''
           | ClassifyThrows \<Rightarrow> lit ''unknown''))"
    unfolding detectIntent_def first_intent_find
    by (simp split: option.splits classified.splits prod.splits)
qed

subsection \<open>The boost of the conversation context\<close>

lemma map_of_replace:
  "map_of (map (\<lambda>(k', v'). if k' = k then (k', v) else (k', v')) m) k
   = map_option (\<lambda>x. v) (map_of m k)"
  by (induction m) auto

lemma map_get_map_set [simp]: "map_get (map_set m k v) k = Some v"
  by (cases "map_of m k") (simp_all add: map_get_def map_set_def map_of_replace map_add_def)

lemma map_get_map_delete [simp]: "map_get (map_delete m k) k = None"
  by (induction m) (auto simp: map_get_def map_delete_def)

lemma updateConversationContext_fields [simp]:
  "trainingData (updateConversationContext cfg b ph entry) = trainingData b"
  "tfidf_documents (updateConversationContext cfg b ph entry) = tfidf_documents b"
  "bayes_documents (updateConversationContext cfg b ph entry) = bayes_documents b"
  "responseCache (updateConversationContext cfg b ph entry) = responseCache b"
  "db (updateConversationContext cfg b ph entry) = db b"
  "stats (updateConversationContext cfg b ph entry) = stats b"
  by (simp_all add: updateConversationContext_def Let_def split: option.splits)





subsection \<open>Processing a message\<close>


subsection \<open>The cache of responses\<close>

lemma cacheResponse_get [simp]:
  "map_get (responseCache (cacheResponse cfg now b k r)) k
   = Some \<lparr>c_response = r, c_timestamp = now\<rparr>"
  by (simp add: cacheResponse_def Let_def)

lemma responseCache_updateStats [simp]:
  "responseCache (updateStats b r) = responseCache b"
  by (simp add: updateStats_def Let_def)

lemma responseCache_learn [simp]:
  "responseCache (snd (learn js b i out a)) = responseCache b"
  by (simp add: learn_def Let_def loadTrainingData_def trainClassifiers_def)

lemma responseCache_learnFromInteraction [simp]:
  "responseCache (learnFromInteraction js cfg b i out c) = responseCache b"
  by (simp add: learnFromInteraction_def)




subsection \<open>Evaluation at an engine with one example\<close>

lemma sanitize_oi: "sanitizeInput (JString (lit ''oi'')) = lit ''oi''"
  by (simp add: sanitizeInput_def trim_def lit_def isWhiteSpace_def)


lemma preprocess_oi: "preprocessText latin1 (lit ''oi'') = lit ''oi''"
  by (simp add: preprocessText_def latin1_fields trim_def lit_def isWhiteSpace_def lowerUnit_def
        nfd_unit_def nfd_lower_def isWordChar_def isDigit_def)


lemma emotions_oi: "detectEmotions (lit ''oi'') = []"
  by (simp add: detectEmotions_def emotionPatterns_def contains_any_def test_any_def lit_def
        any_unit_def lowerUnit_def)

lemma intent_oi: "first_intent initializeIntentPatterns (lit ''oi'') = Some (lit ''greeting'')"
  by (simp add: initializeIntentPatterns_def starts_with_any_def test_start_def lit_def
        any_unit_def lowerUnit_def)

lemma example_oi_row_fields [simp]:
  "t_id (example_oi_row out) = 1" "t_input (example_oi_row out) = lit ''oi''"
  "t_output (example_oi_row out) = lit out" "t_usage_count (example_oi_row out) = 0"
  "t_approved (example_oi_row out) = 1"
  by (simp_all add: example_oi_row_def example_row_def)

lemma example_oi_brain_fields [simp]:
  "trainingData (example_oi_brain out) = [example_oi_row out]"
  "tfidf_documents (example_oi_brain out) = [lit ''oi'']"
  "responseCache (example_oi_brain out) = []"
  "conversationContext (example_oi_brain out) = []"
  "stats (example_oi_brain out) = no_stats"
  by (simp_all add: example_oi_brain_def example_brain_def loadTrainingData_def
        getTrainingData_def Let_def preprocess_oi)








subsection \<open>The fusion\<close>

lemma map_of_replace_all:
  "map_of (map (\<lambda>(k', v'). if k' = k then (k', v) else (k', v')) m) k'' =
     (if k'' = k then map_option (\<lambda>x. v) (map_of m k) else map_of m k'')"
  by (induction m) auto

lemma map_fst_replace:
  "map fst (map (\<lambda>(k', v'). if k' = k then (k', v) else (k', v')) m) = map fst m"
  by (induction m) auto

lemma proto_not_inherited:
  "lit ''__proto__'' \<in> set object_prototype_keys"
  by (simp add: object_prototype_keys_def)

lemma group_of_snoc:
  "group_of (ds @ [c]) k =
     (if cd_text c = k
      then (group_of ds k)\<lparr>g_confidence := g_confidence (group_of ds k) + cd_confidence c,
                            g_algorithms := g_algorithms (group_of ds k) @ [cd_algorithm c]\<rparr>
      else group_of ds k)"
  by (simp add: group_of_def group_total_def)

lemma group_of_fresh:
  assumes "k \<notin> cd_text ` set ds"
  shows "group_of ds k = \<lparr>g_text = k, g_confidence = 0, g_algorithms = []\<rparr>"
proof -
  have "filter (\<lambda>c. cd_text c = k) ds = []"
    using assms by (auto simp: filter_empty_conv)
  then show ?thesis
    by (simp add: group_of_def group_total_def)
qed

text \<open>
  The loop that groups the candidates, when none of their texts names a member of
  \<^verbatim>\<open>Object.prototype\<close>: after the candidates \<open>ds\<close> the object holds, for
  each of their texts, the group of that text, and it still does after \<open>cs\<close>.
\<close>

lemma group_candidates_groups:
  assumes "\<forall>c \<in> set cs. cd_text c \<notin> set object_prototype_keys"
    and "distinct (map fst grouped)"
    and "\<forall>k. map_of grouped k = (if k \<in> cd_text ` set ds then Some (group_of ds k) else None)"
  shows "\<exists>grouped'. group_candidates cs grouped = Inr grouped' \<and> distinct (map fst grouped')
          \<and> (\<forall>k. map_of grouped' k =
                (if k \<in> cd_text ` set (ds @ cs) then Some (group_of (ds @ cs) k) else None))"
  using assms
proof (induction cs arbitrary: ds grouped)
  case Nil
  then show ?case by simp
next
  case (Cons c cs)
  define k where "k = cd_text c"
  have np: "k \<notin> set object_prototype_keys"
    using Cons.prems(1) by (simp add: k_def)
  then have nproto: "k \<noteq> lit ''__proto__''"
    using proto_not_inherited by auto
  define g where "g = group_of (ds @ [c]) k"
  define grouped1 where "grouped1 = js_set grouped k g"
  have step: "group_candidates (c # cs) grouped = group_candidates cs grouped1"
  proof (cases "k \<in> cd_text ` set ds")
    case True
    then have "map_of grouped k = Some (group_of ds k)"
      using Cons.prems(3) by simp
    then show ?thesis
      by (simp add: js_get_def k_def [symmetric] grouped1_def g_def group_of_snoc)
  next
    case False
    then have "map_of grouped k = None"
      using Cons.prems(3) by simp
    then show ?thesis
      using np False
      by (simp add: js_get_def k_def [symmetric] grouped1_def g_def group_of_snoc group_of_fresh)
  qed
  have d1: "distinct (map fst grouped1)"
  proof (cases "map_of grouped k")
    case None
    then have "k \<notin> fst ` set grouped"
      by (simp add: map_of_eq_None_iff)
    with None Cons.prems(2) show ?thesis
      by (simp add: grouped1_def js_set_def nproto)
  next
    case (Some v)
    have "map fst grouped1 = map fst grouped"
      unfolding grouped1_def js_set_def using Some map_fst_replace [of k g grouped]
      by (simp del: map_map)
    with Cons.prems(2) show ?thesis
      by simp
  qed
  have m1: "map_of grouped1 k' =
       (if k' \<in> cd_text ` set (ds @ [c]) then Some (group_of (ds @ [c]) k') else None)" for k'
  proof (cases "map_of grouped k")
    case None
    then have "map_of grouped1 k' = (if k' = k then Some g else map_of grouped k')"
      by (simp add: grouped1_def js_set_def nproto map_add_def split: option.splits)
    then show ?thesis
      using Cons.prems(3) by (auto simp: g_def k_def group_of_snoc)
  next
    case (Some v)
    then have "map_of grouped1 k' = (if k' = k then Some g else map_of grouped k')"
      by (simp add: grouped1_def js_set_def map_of_replace_all)
    then show ?thesis
      using Cons.prems(3) by (auto simp: g_def k_def group_of_snoc)
  qed
  have rest: "\<forall>c \<in> set cs. cd_text c \<notin> set object_prototype_keys"
    using Cons.prems(1) by simp
  have m1': "\<forall>k'. map_of grouped1 k' =
       (if k' \<in> cd_text ` set (ds @ [c]) then Some (group_of (ds @ [c]) k') else None)"
    using m1 by blast
  have e: "(ds @ [c]) @ cs = ds @ c # cs"
    by simp
  from Cons.IH [OF rest d1 m1'] show ?case
    unfolding step e .
qed

lemma set_object_values: "set (object_values obj) = snd ` set obj"
  by (auto simp: object_values_def)

lemma sort_descending_head:
  assumes "sort_descending key xs = best # others"
  shows "best \<in> set xs \<and> (\<forall>x \<in> set xs. key x \<le> key best)"
proof -
  have s: "set (best # others) = set xs"
    using assms [symmetric] by (simp add: sort_descending_def)
  have "sorted (map (\<lambda>x. - key x) (best # others))"
    using assms [symmetric] by (simp add: sort_descending_def)
  then have "\<forall>x \<in> set others. key x \<le> key best"
    by auto
  with s show ?thesis by auto
qed

lemma select_best_groups:
  assumes "candidates \<noteq> []"
    and "\<forall>c \<in> set candidates. cd_text c \<notin> set object_prototype_keys"
  shows "\<exists>t \<in> cd_text ` set candidates.
           select_best candidates
             = Inr ((group_of candidates t)\<lparr>g_confidence := min (group_total candidates t) 1\<rparr>)
           \<and> (\<forall>c \<in> set candidates. group_total candidates (cd_text c) \<le> group_total candidates t)"
proof -
  from group_candidates_groups [OF assms(2), of "[]" "[]"]
  obtain grouped where g: "group_candidates candidates [] = Inr grouped"
      "distinct (map fst grouped)"
      "\<And>k. map_of grouped k =
         (if k \<in> cd_text ` set candidates then Some (group_of candidates k) else None)"
    by auto
  have vals: "snd ` set grouped = group_of candidates ` cd_text ` set candidates"
  proof (intro set_eqI iffI)
    fix x assume "x \<in> snd ` set grouped"
    then obtain k where "(k, x) \<in> set grouped" by auto
    with g(2) have "map_of grouped k = Some x" by simp
    with g(3) [of k] show "x \<in> group_of candidates ` cd_text ` set candidates"
      by (auto split: if_splits)
  next
    fix x assume "x \<in> group_of candidates ` cd_text ` set candidates"
    then obtain k where k: "k \<in> cd_text ` set candidates" "x = group_of candidates k" by auto
    with g(3) [of k] have "map_of grouped k = Some x" by simp
    then have "(k, x) \<in> set grouped" by (rule map_of_SomeD)
    then show "x \<in> snd ` set grouped" by force
  qed
  have "object_values grouped \<noteq> []"
    using assms(1) vals set_object_values [of grouped] by (cases candidates) auto
  then have "set (sort_descending g_confidence (object_values grouped)) \<noteq> {}"
    by (simp add: sort_descending_def)
  then have "sort_descending g_confidence (object_values grouped) \<noteq> []"
    by (simp only: set_empty not_False_eq_True)
  then obtain best others where
      s: "sort_descending g_confidence (object_values grouped) = best # others"
    by (cases "sort_descending g_confidence (object_values grouped)") auto
  from sort_descending_head [OF s]
  have b: "best \<in> group_of candidates ` cd_text ` set candidates"
      "\<forall>x \<in> group_of candidates ` cd_text ` set candidates. g_confidence x \<le> g_confidence best"
    by (simp_all add: set_object_values vals)
  from b(1) obtain t where t: "t \<in> cd_text ` set candidates" "best = group_of candidates t"
    by auto
  have "select_best candidates
          = Inr ((group_of candidates t)\<lparr>g_confidence := min (group_total candidates t) 1\<rparr>)"
    by (simp add: select_best_def g(1) s t(2) group_of_def)
  moreover have "\<forall>c \<in> set candidates. group_total candidates (cd_text c) \<le> group_total candidates t"
    using b(2) t(2) by (auto simp: group_of_def)
  ultimately show ?thesis
    using t(1) by blast
qed

lemma group_total_nonneg:
  assumes "\<forall>c \<in> set candidates. 0 \<le> cd_confidence c"
  shows "0 \<le> group_total candidates t"
  unfolding group_total_def using assms by (intro sum_list_nonneg) auto

text \<open>
  Claim C5. When no candidate has a text that names a member of
  \<^verbatim>\<open>Object.prototype\<close>, the fusion is what the claim says: the result is the
  group of one of the texts, its confidence is the aggregate of that text clamped to
  1, no text has a greater aggregate, and when no contribution is negative the
  confidence is in [0, 1]. At a candidate whose text is \<^verbatim>\<open>constructor\<close> it is
  not: the groups are kept in a plain object, so \<^verbatim>\<open>grouped["constructor"]\<close>
  is the inherited \<^verbatim>\<open>Object.prototype.constructor\<close>, no group is made for the
  text, the fusion throws a \<^verbatim>\<open>TypeError\<close>, and \<^verbatim>\<open>processMessage\<close> answers
  the message \<^verbatim>\<open>oi\<close>, for which the engine has the example \<^verbatim>\<open>oi\<close>
  with the reply \<^verbatim>\<open>constructor\<close>, with the error response.
\<close>

theorem select_best_fusion:
  "(candidates \<noteq> [] \<and> (\<forall>c \<in> set candidates. cd_text c \<notin> set object_prototype_keys) \<longrightarrow>
      (\<exists>t \<in> cd_text ` set candidates.
          select_best candidates
            = Inr ((group_of candidates t)\<lparr>g_confidence := min (group_total candidates t) 1\<rparr>)
          \<and> (\<forall>c \<in> set candidates. group_total candidates (cd_text c) \<le> group_total candidates t)
          \<and> ((\<forall>c \<in> set candidates. 0 \<le> cd_confidence c) \<longrightarrow>
                0 \<le> min (group_total candidates t) 1 \<and> min (group_total candidates t) 1 \<le> 1)))
   \<and> select_best [example_candidate ''constructor'' 0.25 ''levenshtein'']
       = Inl (cannot_read ''push'')
   \<and> fst (ai_processMessage latin1 (example_nlp 1) default_config 0
            (example_oi_brain ''constructor'')
            (JString (lit ''oi'')) anonymous)
     = getErrorResponse (cannot_read ''push'')"
proof (intro conjI impI)
  assume a: "candidates \<noteq> [] \<and> (\<forall>c \<in> set candidates. cd_text c \<notin> set object_prototype_keys)"
  then obtain t where t: "t \<in> cd_text ` set candidates"
      "select_best candidates
            = Inr ((group_of candidates t)\<lparr>g_confidence := min (group_total candidates t) 1\<rparr>)"
      "\<forall>c \<in> set candidates. group_total candidates (cd_text c) \<le> group_total candidates t"
    using select_best_groups [of candidates] by blast
  have "(\<forall>c \<in> set candidates. 0 \<le> cd_confidence c) \<longrightarrow>
          0 \<le> min (group_total candidates t) 1 \<and> min (group_total candidates t) 1 \<le> 1"
    using group_total_nonneg [of candidates t] by simp
  with t show "\<exists>t \<in> cd_text ` set candidates.
          select_best candidates
            = Inr ((group_of candidates t)\<lparr>g_confidence := min (group_total candidates t) 1\<rparr>)
          \<and> (\<forall>c \<in> set candidates. group_total candidates (cd_text c) \<le> group_total candidates t)
          \<and> ((\<forall>c \<in> set candidates. 0 \<le> cd_confidence c) \<longrightarrow>
                0 \<le> min (group_total candidates t) 1 \<and> min (group_total candidates t) 1 \<le> 1)"
    by blast
next
  show "select_best [example_candidate ''constructor'' 0.25 ''levenshtein'']
       = Inl (cannot_read ''push'')"
    by (simp add: select_best_def example_candidate_def js_get_def object_prototype_keys_def)
next
  show "fst (ai_processMessage latin1 (example_nlp 1) default_config 0
            (example_oi_brain ''constructor'')
            (JString (lit ''oi'')) anonymous)
     = getErrorResponse (cannot_read ''push'')"
    by (simp add: select_best_def js_get_def object_prototype_keys_def
     ai_processMessage_def ai_processMessage_try_def sanitize_oi getCachedResponse_def map_get_def
     answer_message_def preprocess_oi Let_def analyzeSentiment_def example_nlp_def
     emotions_oi detectIntent_def intent_oi phone_of_def 
     updateConversationContext_def findBestResponse_def context_boost_def
     tfidf_candidates_def levenshtein_candidates_def jaroWinkler_candidates_def anonymous_def
     default_config_def sort_descending_def)
qed

subsection \<open>The cache at the examples\<close>


subsection \<open>The theorems at the examples\<close>



lemma intent_oi_obrigado:
  "first_intent initializeIntentPatterns (lit ''oi obrigado'') = Some (lit ''greeting'')
   \<and> first_intent (tl initializeIntentPatterns) (lit ''oi obrigado'') = Some (lit ''gratitude'')"
  by (simp add: initializeIntentPatterns_def starts_with_any_def contains_any_def test_start_def
        test_any_def test_end_def lit_def any_unit_def lowerUnit_def)

lemma intent_xyz:
  "first_intent initializeIntentPatterns (lit ''xyz'') = None"
  by (simp add: initializeIntentPatterns_def starts_with_any_def contains_any_def test_start_def
        test_any_def test_end_def lit_def any_unit_def lowerUnit_def)

text \<open>
  The theorem of C6 at a text that the entries for \<^verbatim>\<open>greeting\<close> and for
  \<^verbatim>\<open>gratitude\<close> both match, which is a greeting; and at a text that no
  entry matches, which gets the label of the classifier, or \<^verbatim>\<open>unknown\<close> when
  the classifier throws or returns the empty string.
\<close>

theorem detectIntent_priority_witness:
  "detectIntent (example_nlp 1) (example_oi_brain ''Ola!'') (lit ''oi obrigado'') = lit ''greeting''
   \<and> detectIntent (example_nlp 1) (example_oi_brain ''Ola!'') (lit ''xyz'') = lit ''unknown''
   \<and> detectIntent ((example_nlp 1)\<lparr>bayes_classify := \<lambda>docs text. Classified (lit ''payment'')\<rparr>)
        (example_oi_brain ''Ola!'') (lit ''xyz'') = lit ''payment''
   \<and> detectIntent ((example_nlp 1)\<lparr>bayes_classify := \<lambda>docs text. Classified []\<rparr>)
        (example_oi_brain ''Ola!'') (lit ''xyz'') = lit ''unknown''"
proof -
  have f1: "find (\<lambda>(intent, patterns). \<exists>p \<in> set patterns. p (lit ''xyz'')) initializeIntentPatterns
            = None"
    using intent_xyz by (simp add: first_intent_find)
  have f2: "\<exists>ps. find (\<lambda>(intent, patterns). \<exists>p \<in> set patterns. p (lit ''oi obrigado''))
                 initializeIntentPatterns = Some (lit ''greeting'', ps)"
    using intent_oi_obrigado by (auto simp: first_intent_find)
  show ?thesis
    using detectIntent_priority [of "example_nlp 1" "example_oi_brain ''Ola!''" "lit ''oi obrigado''"]
      detectIntent_priority [of "example_nlp 1" "example_oi_brain ''Ola!''" "lit ''xyz''"]
      detectIntent_priority [of "(example_nlp 1)\<lparr>bayes_classify := \<lambda>docs text. Classified (lit ''payment'')\<rparr>"
         "example_oi_brain ''Ola!''" "lit ''xyz''"]
      detectIntent_priority [of "(example_nlp 1)\<lparr>bayes_classify := \<lambda>docs text. Classified []\<rparr>"
         "example_oi_brain ''Ola!''" "lit ''xyz''"]
      f1 f2
    by (auto simp: example_nlp_def)
qed



lemma example_candidates_totals:
  "group_total example_candidates (lit ''Ola!'') = 0.55"
  "group_total example_candidates (lit ''Tchau!'') = 0.2"
  "cd_text ` set example_candidates = {lit ''Ola!'', lit ''Tchau!''}"
  "group_of example_candidates (lit ''Ola!'')
     = \<lparr>g_text = lit ''Ola!'', g_confidence = 0.55,
        g_algorithms = [lit ''tfidf'', lit ''levenshtein'']\<rparr>"
  by (auto simp: group_of_def group_total_def example_candidates_def example_candidate_def)

text \<open>
  The theorem of C5 at three candidates, two of them with the text
  \<^verbatim>\<open>Ola!\<close>: their group wins with the confidence 0.30 + 0.25.
\<close>

theorem select_best_fusion_witness:
  "example_candidates \<noteq> []
   \<and> set (map cd_text example_candidates) \<inter> set object_prototype_keys = {}
   \<and> list_all (\<lambda>c. 0 \<le> cd_confidence c) example_candidates
   \<and> select_best example_candidates
      = Inr \<lparr>g_text = lit ''Ola!'', g_confidence = 0.55,
             g_algorithms = [lit ''tfidf'', lit ''levenshtein'']\<rparr>"
proof -
  have h1: "example_candidates \<noteq> []"
    by (simp add: example_candidates_def)
  have h2: "\<forall>c \<in> set example_candidates. cd_text c \<notin> set object_prototype_keys"
    by (simp add: example_candidates_def example_candidate_def object_prototype_keys_def)
  have h3: "\<forall>c \<in> set example_candidates. 0 \<le> cd_confidence c"
    by (simp add: example_candidates_def example_candidate_def)
  from select_best_fusion [of example_candidates] h1 h2
  obtain t where t: "t \<in> cd_text ` set example_candidates"
      "select_best example_candidates
         = Inr ((group_of example_candidates t)\<lparr>g_confidence := min (group_total example_candidates t) 1\<rparr>)"
      "\<forall>c \<in> set example_candidates.
          group_total example_candidates (cd_text c) \<le> group_total example_candidates t"
    by blast
  have "lit ''Ola!'' \<in> cd_text ` set example_candidates"
    by (simp add: example_candidates_totals(3))
  with t(3) have "group_total example_candidates (lit ''Ola!'') \<le> group_total example_candidates t"
    by auto
  with t(1) have "t = lit ''Ola!''"
    by (auto simp: example_candidates_totals)
  with t(2) have "select_best example_candidates
      = Inr \<lparr>g_text = lit ''Ola!'', g_confidence = 0.55,
             g_algorithms = [lit ''tfidf'', lit ''levenshtein'']\<rparr>"
    by (simp add: example_candidates_totals)
  with h1 h2 h3 show ?thesis
    by (auto simp: list_all_iff)
qed

lemma example_brain_v1_approved_fields:
  "v1_learningEnabled example_brain_v1_approved"
  "v1_trainingData example_brain_v1_approved = [example_oi_row ''X'']"
  by (simp_all add: example_brain_v1_approved_def v1_loadTrainingData_def example_brain_v1_def
        getTrainingData_def Let_def)

lemma similarity_oi:
  "calculateSimilarity (example_nlp 1) (preprocessText latin1 (lit ''oi'')) (lit ''oi'') = Some 1"
  unfolding preprocess_oi
  by (simp add: calculateSimilarity_def example_nlp_def Let_def lit_def)

text \<open>
  The theorem of C3 at a table in which the example \<^verbatim>\<open>oi\<close> is approved:
  \<^verbatim>\<open>AIBrain.learn\<close> rejects \<^verbatim>\<open>oi\<close>, whose similarity to it is 1.
\<close>

theorem learn_twice_witness:
  "v1_learningEnabled example_brain_v1_approved
   \<and> example_oi_row ''X'' \<in> set (v1_trainingData example_brain_v1_approved)
   \<and> calculateSimilarity (example_nlp 1) (preprocessText latin1 (lit ''oi''))
        (t_input (example_oi_row ''X'')) = Some 1
   \<and> (1 :: real) > 0.9
   \<and> v1_learn latin1 (example_nlp 1) example_brain_v1_approved (lit ''oi'') (lit ''Y'') True
      = (False, example_brain_v1_approved)"
  using learn_twice [where js = latin1 and b' = example_brain_v1_approved and item = "example_oi_row ''X''"
      and lib = "example_nlp 1" and inp = "lit ''oi''" and s = 1 and out = "lit ''Y''"
      and approved = True]
    example_brain_v1_approved_fields similarity_oi
  by simp

end
